theory Spec2Isabelle
  imports Complex_Main
begin

section \<open>Constants of \<^verbatim>\<open>selfdrive/modeld/modeld.py\<close>\<close>

definition FEATURE_LEN :: nat where "FEATURE_LEN = 128"
definition HISTORY_BUFFER_LEN :: nat where "HISTORY_BUFFER_LEN = 99"
definition DESIRE_LEN :: nat where "DESIRE_LEN = 8"
definition TRAFFIC_CONVENTION_LEN :: nat where "TRAFFIC_CONVENTION_LEN = 2"
definition NAV_FEATURE_LEN :: nat where "NAV_FEATURE_LEN = 256"
definition OUTPUT_SIZE :: nat where "OUTPUT_SIZE = 5990"
definition MODEL_OUTPUT_SIZE :: nat where "MODEL_OUTPUT_SIZE = 6120"
definition MODEL_FREQ :: nat where "MODEL_FREQ = 20"

section \<open>One-dimensional numpy arrays\<close>

text \<open>
  A one-dimensional \<^verbatim>\<open>np.ndarray\<close> is a list of its elements. The elements are
  \<^verbatim>\<open>float32\<close> in the source; here an element is the real number that a finite
  \<^verbatim>\<open>float32\<close> value stands for (infinities and NaN are left out). The arrays are copied
  and shifted without arithmetic, except at line 74, where \<open>f32_round\<close> below does the
  rounding of the source. An operation that raises in Python returns \<open>Inl\<close> of the
  exception.
\<close>

datatype error = IndexError | ValueError | ZeroDivisionError

type_synonym ndarray = "real list"
type_synonym matrix = "real list list"

text \<open>Broadcasting a value \<open>v\<close> to a target of \<open>n\<close> elements: the shapes agree, or
  \<open>v\<close> has one element, which is repeated; anything else is a \<^verbatim>\<open>ValueError\<close>.\<close>

definition broadcast_to :: "nat \<Rightarrow> 'a list \<Rightarrow> error + 'a list" where
  "broadcast_to n v =
     (if length v = n then Inr v
      else if length v = 1 then Inr (replicate n (hd v))
      else Inl ValueError)"

text \<open>Broadcasting the two operands of an elementwise operation against each other.\<close>

definition broadcast_pair :: "'a list \<Rightarrow> 'b list \<Rightarrow> error + ('a \<times> 'b) list" where
  "broadcast_pair a b =
     (if length a = length b then Inr (zip a b)
      else if length a = 1 then Inr (map (\<lambda>y. (hd a, y)) b)
      else if length b = 1 then Inr (map (\<lambda>x. (x, hd b)) a)
      else Inl ValueError)"

text \<open>\<^verbatim>\<open>a[0] = 0\<close>: an \<^verbatim>\<open>IndexError\<close> on the empty array.\<close>

definition set_item0 :: "ndarray \<Rightarrow> error + ndarray" where
  "set_item0 a = (if a = [] then Inl IndexError else Inr (a[0 := 0]))"

text \<open>\<^verbatim>\<open>a[:-n] = a[n:]\<close> for \<open>n > 0\<close>: both slices have \<open>length a - n\<close> elements (none
  when the array is shorter than \<open>n\<close>), and the last \<open>min n (length a)\<close> elements of
  \<open>a\<close> keep their values.\<close>

definition shift_left :: "nat \<Rightarrow> 'a list \<Rightarrow> 'a list" where
  "shift_left n a = drop n a @ drop (length a - n) a"

text \<open>\<^verbatim>\<open>a[-n:] = v\<close> for \<open>n > 0\<close>: the target is the last \<open>min n (length a)\<close>
  elements of \<open>a\<close>.\<close>

definition assign_tail :: "nat \<Rightarrow> 'a list \<Rightarrow> 'a list \<Rightarrow> error + 'a list" where
  "assign_tail n a v =
     (case broadcast_to (min n (length a)) v of
        Inl e \<Rightarrow> Inl e
      | Inr w \<Rightarrow> Inr (take (length a - n) a @ w))"

text \<open>\<^verbatim>\<open>a[:] = v\<close>.\<close>

definition assign_all :: "'a list \<Rightarrow> 'a list \<Rightarrow> error + 'a list" where
  "assign_all a v = broadcast_to (length a) v"

text \<open>Rounding to the nearest integer, a tie going to the even one.\<close>

definition round_half_even :: "real \<Rightarrow> int" where
  "round_half_even x =
     (let n = \<lfloor>x\<rfloor>; d = x - of_int n
      in if d < 1 / 2 then n else if 1 / 2 < d then n + 1 else if even n then n else n + 1)"

text \<open>
  The \<^verbatim>\<open>float32\<close> value of a real number: round to nearest, ties to even, with a
  significand of 24 bits and the least exponent \<open>-149\<close>. The number is measured in units of
  \<open>2^-149\<close>, the smallest positive \<^verbatim>\<open>float32\<close>; \<open>j\<close> is the exponent of its binade in
  these units, so that the values of the binade are the multiples of \<open>2^j\<close> below
  \<open>2^(j+24)\<close>. The largest finite \<^verbatim>\<open>float32\<close> is below \<open>2^128\<close>; a number that rounds
  to \<open>2^128\<close> or beyond is an infinity in the source, and \<open>2^128\<close> with its sign here,
  which compares with every finite value as the infinity does.
\<close>

definition f32_round :: "real \<Rightarrow> real" where
  "f32_round x =
     (let s = \<bar>x\<bar> * 2 ^ 149
      in case find (\<lambda>j. s < 2 ^ (j + 24)) [0..<254] of
           None \<Rightarrow> sgn x * 2 ^ 128
         | Some j \<Rightarrow> sgn x * (of_int (round_half_even (s / 2 ^ j)) * 2 ^ j / 2 ^ 149))"

text \<open>
  One element of \<^verbatim>\<open>np.where(raw - prev > .99, raw, 0)\<close>: the difference of two
  \<^verbatim>\<open>float32\<close> values is a \<^verbatim>\<open>float32\<close>, and the Python constant \<^verbatim>\<open>.99\<close> is compared as
  a \<^verbatim>\<open>float32\<close>.
\<close>

definition edge_pulse :: "real \<Rightarrow> real \<Rightarrow> real" where
  "edge_pulse r p = (if f32_round (r - p) > f32_round (99 / 100) then r else 0)"

text \<open>\<^verbatim>\<open>np.where(raw - prev > .99, raw, 0)\<close>.\<close>

definition desire_pulse_of :: "ndarray \<Rightarrow> ndarray \<Rightarrow> error + ndarray" where
  "desire_pulse_of raw prev =
     (case broadcast_pair raw prev of
        Inl e \<Rightarrow> Inl e
      | Inr rp \<Rightarrow> Inr (map (\<lambda>(r, p). edge_pulse r p) rp))"

section \<open>\<^verbatim>\<open>ModelState\<close>\<close>

text \<open>
  The external calls and log lines a piece of code issues, in order. The image
  preprocessor (\<^verbatim>\<open>ModelFrame.prepare\<close>), the inference engine (\<^verbatim>\<open>ONNXModel\<close>), the
  drop-rate filter and the logger are collaborators outside this file; a call to one of
  them is an event.
\<close>

datatype ('buf, 'img) event =
    Log_info string
  | Log_error string
  | Frame_prepare 'buf ndarray
  | Wide_frame_prepare 'buf ndarray
  | Set_input_buffer string 'img
  | Model_execute
  | Filter_update real

text \<open>
  The fields of \<^verbatim>\<open>ModelState\<close>. The dictionary \<^verbatim>\<open>self.inputs\<close> has the four literal
  keys given in \<^verbatim>\<open>__init__\<close> and no other code adds or removes a key, so each key is a
  field. \<open>input_imgs\<close> and \<open>big_input_imgs\<close> are the image inputs bound in
  \<^verbatim>\<open>self.model\<close> (\<open>None\<close> as \<^verbatim>\<open>addInput(name, None)\<close> leaves them); \<open>output_buf\<close> is
  \<^verbatim>\<open>self.output\<close>.
\<close>

record 'img model_state =
  prev_desire :: ndarray
  output_buf :: ndarray
  desire_pulse :: ndarray
  traffic_convention :: ndarray
  nav_features :: ndarray
  feature_buffer :: ndarray
  input_imgs :: "'img option"
  big_input_imgs :: "'img option"

definition init_model_state :: "'img model_state" where
  "init_model_state =
     \<lparr> prev_desire = replicate DESIRE_LEN 0,
       output_buf = replicate MODEL_OUTPUT_SIZE 0,
       desire_pulse = replicate (DESIRE_LEN * (HISTORY_BUFFER_LEN + 1)) 0,
       traffic_convention = replicate TRAFFIC_CONVENTION_LEN 0,
       nav_features = replicate NAV_FEATURE_LEN 0,
       feature_buffer = replicate (HISTORY_BUFFER_LEN * FEATURE_LEN) 0,
       input_imgs = None,
       big_input_imgs = None \<rparr>"

text \<open>The dictionary \<^verbatim>\<open>inputs\<close> passed to \<^verbatim>\<open>eval\<close>, with the keys the loop gives it.\<close>

record eval_inputs =
  in_desire_pulse :: ndarray
  in_traffic_convention :: ndarray
  in_driving_style :: ndarray
  in_nav_features :: ndarray

text \<open>
  What a call of \<^verbatim>\<open>eval\<close> leaves behind: the updated \<^verbatim>\<open>ModelState\<close>, the caller's
  \<^verbatim>\<open>inputs['desire_pulse']\<close> array (which \<^verbatim>\<open>eval\<close> writes to in place), the returned
  value and the events issued.
\<close>

record ('buf, 'img) eval_result =
  er_state :: "'img model_state"
  er_desire_pulse :: ndarray
  er_return :: "ndarray option"
  er_events :: "('buf, 'img) event list"

text \<open>
  \<^verbatim>\<open>ModelState.eval\<close>. \<open>prepare\<close> stands for \<^verbatim>\<open>ModelFrame.prepare\<close> (the device buffer
  argument left out), and \<open>engine_out\<close> is what \<^verbatim>\<open>self.model.execute()\<close> leaves in
  \<^verbatim>\<open>self.output\<close> when it is called. \<^verbatim>\<open>transform.astype(np.float32).flatten()\<close> is
  \<open>concat transform\<close>.
\<close>

definition eval ::
  "('buf \<Rightarrow> ndarray \<Rightarrow> 'img) \<Rightarrow> ndarray \<Rightarrow> 'img model_state \<Rightarrow> 'buf \<Rightarrow> 'buf option \<Rightarrow>
   matrix \<Rightarrow> matrix \<Rightarrow> eval_inputs \<Rightarrow> bool \<Rightarrow> error + ('buf, 'img) eval_result" where
  "eval prepare engine_out self buf wbuf transform transform_wide inputs prepare_only =
    (case set_item0 (in_desire_pulse inputs) of Inl e \<Rightarrow> Inl e | Inr raw \<Rightarrow>
     case desire_pulse_of raw (prev_desire self) of Inl e \<Rightarrow> Inl e | Inr pulse \<Rightarrow>
     case assign_tail DESIRE_LEN (shift_left DESIRE_LEN (desire_pulse self)) pulse of
       Inl e \<Rightarrow> Inl e | Inr dp \<Rightarrow>
     case assign_all (prev_desire self) raw of Inl e \<Rightarrow> Inl e | Inr pd \<Rightarrow>
     case assign_all (traffic_convention self) (in_traffic_convention inputs) of
       Inl e \<Rightarrow> Inl e | Inr tc \<Rightarrow>
     case assign_all (nav_features self) (in_nav_features inputs) of
       Inl e \<Rightarrow> Inl e | Inr nf \<Rightarrow>
     let frame = prepare buf (concat transform);
         s1 = self\<lparr> desire_pulse := dp, prev_desire := pd, traffic_convention := tc,
                    nav_features := nf, input_imgs := Some frame \<rparr>;
         ev1 = [Log_info ''Desire enqueued'',
                Frame_prepare buf (concat transform),
                Set_input_buffer ''input_imgs'' frame,
                Log_info ''Image added''];
         (s2, ev2) =
           (case wbuf of
              None \<Rightarrow> (s1, ev1)
            | Some wb \<Rightarrow>
                (let wide_frame = prepare wb (concat transform_wide)
                 in (s1\<lparr> big_input_imgs := Some wide_frame \<rparr>,
                     ev1 @ [Wide_frame_prepare wb (concat transform_wide),
                            Set_input_buffer ''big_input_imgs'' wide_frame,
                            Log_info ''Extra image added''])))
     in if prepare_only
        then Inr \<lparr> er_state = s2, er_desire_pulse = raw, er_return = None, er_events = ev2 \<rparr>
        else
          (let s3 = s2\<lparr> output_buf := engine_out \<rparr>
           in case assign_tail FEATURE_LEN (shift_left FEATURE_LEN (feature_buffer s3))
                     (take FEATURE_LEN (drop OUTPUT_SIZE (output_buf s3))) of
                Inl e \<Rightarrow> Inl e
              | Inr fb \<Rightarrow>
                  Inr \<lparr> er_state = s3\<lparr> feature_buffer := fb \<rparr>,
                        er_desire_pulse = raw,
                        er_return = Some (output_buf s3),
                        er_events = ev2 @ [Model_execute, Log_info ''Execution finished'',
                                           Log_info ''Features enqueued''] \<rparr>))"

section \<open>Collaborators of the main loop\<close>

subsection \<open>The drop-rate filter\<close>

text \<open>
  Modelled from the spec: \<^verbatim>\<open>FirstOrderFilter\<close> of \<^verbatim>\<open>common/filter_simple.py\<close>, which
  is not among the source files. The spec gives it a scalar state, a time constant and a
  sample period; the constructor is called as \<^verbatim>\<open>FirstOrderFilter(x0, rc, dt)\<close>.
\<close>

record first_order_filter =
  filt_x :: real
  filt_rc :: real
  filt_dt :: real

definition FirstOrderFilter :: "real \<Rightarrow> real \<Rightarrow> real \<Rightarrow> first_order_filter" where
  "FirstOrderFilter x0 rc dt = \<lparr> filt_x = x0, filt_rc = rc, filt_dt = dt \<rparr>"

text \<open>
  Modelled from the spec: \<^verbatim>\<open>FirstOrderFilter.update\<close>, which is not among the source
  files. The spec gives the update as \<^verbatim>\<open>state += (input_clamped - state) * (dt / tau)\<close>;
  the call returns the new state.
\<close>

definition filter_update :: "first_order_filter \<Rightarrow> real \<Rightarrow> first_order_filter \<times> real" where
  "filter_update f u =
     (let x' = filt_x f + (u - filt_x f) * (filt_dt f / filt_rc f)
      in (f\<lparr> filt_x := x' \<rparr>, x'))"

subsection \<open>The frame sources\<close>

text \<open>
  Modelled from the spec: the frame source, \<^verbatim>\<open>VisionIpcClient\<close> of \<^verbatim>\<open>cereal.visionipc\<close>,
  which is not among the source files. The spec gives it \<^verbatim>\<open>receive() -> frame|none\<close>, a
  frame id and a start-of-frame timestamp. Here it is what the loop sees: the frame id and
  the start-of-frame timestamp (in nanoseconds) of the last frame received, and the
  results of the calls of \<^verbatim>\<open>recv()\<close> still to come, each a frame (buffer, frame id,
  timestamp) or \<open>None\<close> for a call that times out. Once that list is used up every call
  times out. A call that returns \<open>None\<close> leaves the frame id and the timestamp alone.
\<close>

record 'buf vipc_client =
  cl_frame_id :: int
  cl_timestamp_sof :: int
  cl_stream :: "('buf \<times> int \<times> int) option list"

definition recv :: "'buf vipc_client \<Rightarrow> 'buf option \<times> 'buf vipc_client" where
  "recv c =
     (case cl_stream c of
        [] \<Rightarrow> (None, c)
      | None # rest \<Rightarrow> (None, c\<lparr> cl_stream := rest \<rparr>)
      | Some (b, fid, sof) # rest \<Rightarrow>
          (Some b, c\<lparr> cl_frame_id := fid, cl_timestamp_sof := sof, cl_stream := rest \<rparr>))"

subsection \<open>Calibration\<close>

text \<open>
  The matrices that \<^verbatim>\<open>update_calibration\<close> reads come from \<^verbatim>\<open>common.transformations\<close>,
  which is not among the source files; they are parameters here, as is
  \<^verbatim>\<open>rot_from_euler\<close>. All of them are 3 by 3.
\<close>

record calib_tables =
  tici_ecam_intrinsics :: matrix
  tici_fcam_intrinsics :: matrix
  view_frame_from_device_frame :: matrix
  calib_from_medmodel :: matrix
  calib_from_sbigmodel :: matrix
  rot_from_euler :: "real list \<Rightarrow> matrix"

text \<open>The product \<^verbatim>\<open>a @ b\<close> of two matrices given by their rows.\<close>

definition matmul :: "matrix \<Rightarrow> matrix \<Rightarrow> matrix" where
  "matmul a b =
     map (\<lambda>row. map (\<lambda>col. sum_list (map (\<lambda>(p, q). p * q) (zip row col))) (transpose b)) a"

definition update_calibration :: "calib_tables \<Rightarrow> real list \<Rightarrow> bool \<Rightarrow> bool \<Rightarrow> matrix" where
  "update_calibration T device_from_calib_euler wide_camera bigmodel_frame =
     (let cam_intrinsics = (if wide_camera then tici_ecam_intrinsics T else tici_fcam_intrinsics T);
          calib_from_model = (if bigmodel_frame then calib_from_sbigmodel T else calib_from_medmodel T);
          device_from_calib = rot_from_euler T device_from_calib_euler;
          camera_from_calib =
            matmul (matmul cam_intrinsics (view_frame_from_device_frame T)) device_from_calib;
          warp_matrix = matmul camera_from_calib calib_from_model
      in warp_matrix)"

section \<open>The main loop\<close>

text \<open>
  The variables of the loop that live from one cycle to the next. \<open>last_mt\<close> is the
  variable \<^verbatim>\<open>last\<close>.
\<close>

record ('buf, 'img) loop_state =
  model :: "'img model_state"
  use_extra_client :: bool
  main_wide_camera :: bool
  vipc_client_main :: "'buf vipc_client"
  vipc_client_extra :: "'buf vipc_client"
  frame_dropped_filter :: first_order_filter
  frame_id :: int
  last_vipc_frame_id :: int
  last_mt :: real
  run_count :: nat
  model_transform_main :: matrix
  model_transform_extra :: matrix
  live_calib_seen :: bool
  buf_main :: "'buf option"
  buf_extra :: "'buf option"

text \<open>
  The state when the loop is entered: the flags found at start-up, and the two clients
  as connected, with the results their \<^verbatim>\<open>recv()\<close> calls are going to give. A client that
  has received nothing has frame id 0 and timestamp 0.
\<close>

definition init_loop_state ::
  "bool \<Rightarrow> bool \<Rightarrow> ('buf \<times> int \<times> int) option list \<Rightarrow> ('buf \<times> int \<times> int) option list \<Rightarrow>
   ('buf, 'img) loop_state" where
  "init_loop_state use_extra main_wide main_stream extra_stream =
     \<lparr> model = init_model_state,
       use_extra_client = use_extra,
       main_wide_camera = main_wide,
       vipc_client_main = \<lparr> cl_frame_id = 0, cl_timestamp_sof = 0, cl_stream = main_stream \<rparr>,
       vipc_client_extra = \<lparr> cl_frame_id = 0, cl_timestamp_sof = 0, cl_stream = extra_stream \<rparr>,
       frame_dropped_filter = FirstOrderFilter 0 10 (1 / real MODEL_FREQ),
       frame_id = 0,
       last_vipc_frame_id = 0,
       last_mt = 0,
       run_count = 0,
       model_transform_main = replicate 3 (replicate 3 0),
       model_transform_extra = replicate 3 (replicate 3 0),
       live_calib_seen = False,
       buf_main = None,
       buf_extra = None \<rparr>"

text \<open>
  What the outside world gives one cycle: the values read from the \<^verbatim>\<open>SubMaster\<close> after
  \<^verbatim>\<open>sm.update(0)\<close> (\<open>sm_liveCalibration\<close> is \<open>Some rpyCalib\<close> when
  \<^verbatim>\<open>sm.updated["liveCalibration"]\<close> holds), what the engine writes if it is run, and the
  clock reading \<^verbatim>\<open>mt1\<close>.
\<close>

record cycle_env =
  sm_desire :: int
  sm_isRHD :: bool
  sm_frameId :: int
  sm_liveCalibration :: "real list option"
  engine_output :: ndarray
  perf_counter_mt1 :: real

text \<open>Lines 161 to 164: receive from the main stream while it is not 25 ms ahead.\<close>

function recv_main_loop ::
  "int \<Rightarrow> 'buf vipc_client \<Rightarrow> 'buf option \<Rightarrow> 'buf vipc_client \<times> 'buf option" where
  "recv_main_loop extra_sof c b =
     (if cl_timestamp_sof c < extra_sof + 25000000
      then (case recv c of
              (None, c') \<Rightarrow> (c', None)
            | (Some b', c') \<Rightarrow> recv_main_loop extra_sof c' (Some b'))
      else (c, b))"
  by pat_completeness auto
termination
  by (relation "measure (\<lambda>(e, c, b). length (cl_stream c))") (auto simp: recv_def split: list.splits option.splits)

declare recv_main_loop.simps [simp del]

text \<open>Lines 172 to 175: receive from the extra stream until it has caught up.\<close>

function recv_extra_loop :: "int \<Rightarrow> 'buf vipc_client \<Rightarrow> 'buf vipc_client \<times> 'buf option" where
  "recv_extra_loop main_sof c =
     (case recv c of
        (None, c') \<Rightarrow> (c', None)
      | (Some b, c') \<Rightarrow>
          if main_sof < cl_timestamp_sof c' + 25000000 then (c', Some b)
          else recv_extra_loop main_sof c')"
  by pat_completeness auto
termination
  by (relation "measure (\<lambda>(m, c). length (cl_stream c))") (auto simp: recv_def split: list.splits option.splits)

declare recv_extra_loop.simps [simp del]

text \<open>
  Lines 170 to 188, entered with a main frame in hand: the events logged, the state, and
  whether the cycle goes on (\<open>False\<close> is the \<^verbatim>\<open>continue\<close> of line 179). The test of
  line 181 is written as the source has it.
\<close>

definition sync_extra ::
  "('buf, 'img) loop_state \<Rightarrow> ('buf, 'img) event list \<times> ('buf, 'img) loop_state \<times> bool" where
  "sync_extra st =
     (if use_extra_client st
      then (let (ce, be) = recv_extra_loop (cl_timestamp_sof (vipc_client_main st))
                             (vipc_client_extra st);
                st' = st\<lparr> vipc_client_extra := ce, buf_extra := be \<rparr>
            in if be = None then ([Log_error ''vipc_client_extra no frame''], st', False)
               else if \<bar>cl_timestamp_sof (vipc_client_main st') -
                        cl_timestamp_sof (vipc_client_main st')\<bar> > 10000000
               then ([Log_error ''frames out of sync!''], st', True)
               else ([], st', True))
      else ([], st\<lparr> buf_extra := buf_main st \<rparr>, True))"

text \<open>
  Lines 209 to 219, from the filter, \<^verbatim>\<open>run_count\<close>, \<^verbatim>\<open>vipc_client_main.frame_id\<close> and
  \<^verbatim>\<open>last_vipc_frame_id\<close>: the filter and \<^verbatim>\<open>run_count\<close> afterwards, the values of the
  cycle's variables, and the events. The division of line 216 raises when its divisor
  is zero.
\<close>

record drop_report =
  vipc_dropped_frames :: int
  frames_dropped :: real
  frame_drop_ratio :: real
  prepare_only :: bool

definition track_dropped_frames ::
  "first_order_filter \<Rightarrow> nat \<Rightarrow> int \<Rightarrow> int \<Rightarrow>
   error + (first_order_filter \<times> nat \<times> drop_report \<times> ('buf, 'img) event list)" where
  "track_dropped_frames flt rc main_frame_id last_id =
     (let dropped = main_frame_id - last_id - 1;
          fed = real_of_int (min dropped 10);
          (flt', smoothed) = filter_update flt fed;
          fd = (if rc < 10 then 0 else smoothed);
          rc' = rc + 1
      in if 1 + fd = 0 then Inl ZeroDivisionError
         else Inr (flt', rc',
                   \<lparr> vipc_dropped_frames = dropped, frames_dropped = fd,
                     frame_drop_ratio = fd / (1 + fd), prepare_only = (dropped > 0) \<rparr>,
                   Filter_update fed #
                     (if dropped > 0 then [Log_error ''skipping model eval''] else [])))"

text \<open>How a cycle ends: at a \<^verbatim>\<open>continue\<close>, or after \<^verbatim>\<open>model.eval\<close> with the cycle's
  variables and \<^verbatim>\<open>model_output\<close>.\<close>

datatype outcome = Skipped | Completed drop_report "ndarray option"

text \<open>Lines 201 to 206 and 221 to 225: the dictionary \<^verbatim>\<open>inputs\<close> of the cycle, from the
  desire and the right-hand-drive flag read from the \<^verbatim>\<open>SubMaster\<close>.\<close>

definition loop_inputs :: "cycle_env \<Rightarrow> eval_inputs" where
  "loop_inputs env =
     (let desire = sm_desire env;
          is_rhd = sm_isRHD env;
          traffic_conv = (replicate 2 0)[(if is_rhd then 1 else 0) := 1];
          vec_desire = (if desire \<ge> 0 \<and> desire < int DESIRE_LEN
                        then (replicate DESIRE_LEN 0)[nat desire := 1]
                        else replicate DESIRE_LEN 0)
      in \<lparr> in_desire_pulse = vec_desire,
           in_traffic_convention = traffic_conv,
           in_driving_style = [1, 0, 0, 0, 0, 1, 0, 0, 0, 0, 0, 0],
           in_nav_features = replicate NAV_FEATURE_LEN 0 \<rparr>)"

text \<open>Lines 191 to 241, with the main frame \<open>b\<close> and the events \<open>ev0\<close> so far.\<close>

definition run_cycle ::
  "calib_tables \<Rightarrow> ('buf \<Rightarrow> ndarray \<Rightarrow> 'img) \<Rightarrow> ('buf, 'img) loop_state \<Rightarrow> cycle_env \<Rightarrow> 'buf \<Rightarrow>
   ('buf, 'img) event list \<Rightarrow> error + (outcome \<times> ('buf, 'img) event list \<times> ('buf, 'img) loop_state)" where
  "run_cycle T prepare st env b ev0 =
     (let st1 = st\<lparr> frame_id := sm_frameId env \<rparr>;
          st2 = (case sm_liveCalibration env of
                   None \<Rightarrow> st1
                 | Some device_from_calib_euler \<Rightarrow>
                     st1\<lparr> model_transform_main :=
                            update_calibration T device_from_calib_euler (main_wide_camera st1) False,
                          model_transform_extra :=
                            update_calibration T device_from_calib_euler True True,
                          live_calib_seen := True \<rparr>)
      in case track_dropped_frames (frame_dropped_filter st2) (run_count st2)
                (cl_frame_id (vipc_client_main st2)) (last_vipc_frame_id st2) of
           Inl e \<Rightarrow> Inl e
         | Inr (flt, rc, rep, ev1) \<Rightarrow>
             (case eval prepare (engine_output env) (model st2) b (buf_extra st2)
                     (model_transform_main st2) (model_transform_extra st2) (loop_inputs env)
                     (prepare_only rep) of
                Inl e \<Rightarrow> Inl e
              | Inr r \<Rightarrow>
                  Inr (Completed rep (er_return r),
                       ev0 @ ev1 @ er_events r,
                       st2\<lparr> model := er_state r,
                            frame_dropped_filter := flt,
                            run_count := rc,
                            last_mt := perf_counter_mt1 env,
                            last_vipc_frame_id := cl_frame_id (vipc_client_main st2) \<rparr>)))"

text \<open>One pass through the body of the loop at line 159.\<close>

definition cycle ::
  "calib_tables \<Rightarrow> ('buf \<Rightarrow> ndarray \<Rightarrow> 'img) \<Rightarrow> ('buf, 'img) loop_state \<Rightarrow> cycle_env \<Rightarrow>
   error + (outcome \<times> ('buf, 'img) event list \<times> ('buf, 'img) loop_state)" where
  "cycle T prepare st env =
     (let (cm, bm) = recv_main_loop (cl_timestamp_sof (vipc_client_extra st))
                       (vipc_client_main st) (buf_main st);
          st1 = st\<lparr> vipc_client_main := cm, buf_main := bm \<rparr>
      in case bm of
           None \<Rightarrow> Inr (Skipped, [Log_error ''vipc_client_main no frame''], st1)
         | Some b \<Rightarrow>
             (case sync_extra st1 of
                (ev0, st2, False) \<Rightarrow> Inr (Skipped, ev0, st2)
              | (ev0, st2, True) \<Rightarrow> run_cycle T prepare st2 env b ev0))"

text \<open>Cycles one after the other, each with what the outside world gives it: how
  each of them ended, and the state after the last. An exception ends the process.\<close>

fun run ::
  "calib_tables \<Rightarrow> ('buf \<Rightarrow> ndarray \<Rightarrow> 'img) \<Rightarrow> ('buf, 'img) loop_state \<Rightarrow> cycle_env list \<Rightarrow>
   error + (outcome list \<times> ('buf, 'img) loop_state)" where
  "run T prepare st [] = Inr ([], st)"
| "run T prepare st (env # envs) =
     (case cycle T prepare st env of
        Inl e \<Rightarrow> Inl e
      | Inr (oc, ev, st') \<Rightarrow>
          (case run T prepare st' envs of
             Inl e \<Rightarrow> Inl e
           | Inr (ocs, st'') \<Rightarrow> Inr (oc # ocs, st'')))"

text \<open>Calls of \<^verbatim>\<open>eval\<close> one after the other on the same \<^verbatim>\<open>ModelState\<close>, each with its
  arguments and with what the engine writes if it is run.\<close>

record 'buf eval_call =
  ec_engine_out :: ndarray
  ec_buf :: 'buf
  ec_wbuf :: "'buf option"
  ec_transform :: matrix
  ec_transform_wide :: matrix
  ec_inputs :: eval_inputs
  ec_prepare_only :: bool

fun evals ::
  "('buf \<Rightarrow> ndarray \<Rightarrow> 'img) \<Rightarrow> 'img model_state \<Rightarrow> 'buf eval_call list \<Rightarrow>
   error + 'img model_state" where
  "evals prepare s [] = Inr s"
| "evals prepare s (c # cs) =
     (case eval prepare (ec_engine_out c) s (ec_buf c) (ec_wbuf c) (ec_transform c)
             (ec_transform_wide c) (ec_inputs c) (ec_prepare_only c) of
        Inl e \<Rightarrow> Inl e
      | Inr r \<Rightarrow> evals prepare (er_state r) cs)"

section \<open>Sample inputs\<close>

text \<open>Tables with the identity in every place, and what the outside world gives a cycle in
  which no calibration arrives and the engine, if run, fills its output with \<open>v\<close>.\<close>

definition eye3 :: matrix where
  "eye3 = [[1, 0, 0], [0, 1, 0], [0, 0, 1]]"

definition sample_tables :: calib_tables where
  "sample_tables =
     \<lparr> tici_ecam_intrinsics = eye3, tici_fcam_intrinsics = eye3,
       view_frame_from_device_frame = eye3, calib_from_medmodel = eye3,
       calib_from_sbigmodel = eye3, rot_from_euler = (\<lambda>e. eye3) \<rparr>"

definition sample_env :: "real \<Rightarrow> cycle_env" where
  "sample_env v =
     \<lparr> sm_desire = 3, sm_isRHD = False, sm_frameId = 1, sm_liveCalibration = None,
       engine_output = replicate MODEL_OUTPUT_SIZE v, perf_counter_mt1 = 1 \<rparr>"

text \<open>
  What \<^verbatim>\<open>recv()\<close> is going to give on a camera that drops no frame, for the frames
  \<open>i + 1\<close> to \<open>i + n\<close>: frame \<open>k\<close> has frame id \<open>k\<close> and is stamped \<open>k\<close> times 50 ms.
\<close>

fun frames_from :: "'buf \<Rightarrow> int \<Rightarrow> nat \<Rightarrow> ('buf \<times> int \<times> int) option list" where
  "frames_from b i 0 = []"
| "frames_from b i (Suc n) = Some (b, i + 1, 50000000 * (i + 1)) # frames_from b (i + 1) n"

section \<open>Notions used in the statements\<close>

text \<open>Block \<open>k\<close> of a buffer made of blocks of \<open>n\<close> elements.\<close>

definition block :: "nat \<Rightarrow> nat \<Rightarrow> 'a list \<Rightarrow> 'a list" where
  "block n k a = take n (drop (k * n) a)"

text \<open>The arrays of a \<^verbatim>\<open>ModelState\<close> have the sizes \<^verbatim>\<open>__init__\<close> gives them.\<close>

definition array_sizes_ok :: "'img model_state \<Rightarrow> bool" where
  "array_sizes_ok s \<longleftrightarrow>
     length (prev_desire s) = DESIRE_LEN \<and>
     length (desire_pulse s) = DESIRE_LEN * (HISTORY_BUFFER_LEN + 1) \<and>
     length (traffic_convention s) = TRAFFIC_CONVENTION_LEN \<and>
     length (nav_features s) = NAV_FEATURE_LEN \<and>
     length (feature_buffer s) = HISTORY_BUFFER_LEN * FEATURE_LEN"

text \<open>The arrays given to \<^verbatim>\<open>eval\<close> have the sizes the loop gives them.\<close>

definition input_sizes_ok :: "eval_inputs \<Rightarrow> bool" where
  "input_sizes_ok inp \<longleftrightarrow>
     length (in_desire_pulse inp) = DESIRE_LEN \<and>
     length (in_traffic_convention inp) = TRAFFIC_CONVENTION_LEN \<and>
     length (in_nav_features inp) = NAV_FEATURE_LEN"

text \<open>
  A loop in single-camera mode that holds a main frame it has already used: the main
  client is 25 ms or more ahead of the extra client, which is never read in this mode, so
  the loop of line 161 is not entered and \<^verbatim>\<open>buf_main\<close> and the main frame id stay as they
  are. The filter has the loop's parameters and a state in \<open>(-1, 0]\<close>.
\<close>

definition stale_single_camera :: "('buf, 'img) loop_state \<Rightarrow> bool" where
  "stale_single_camera st \<longleftrightarrow>
     \<not> use_extra_client st \<and>
     \<not> cl_timestamp_sof (vipc_client_main st) < cl_timestamp_sof (vipc_client_extra st) + 25000000 \<and>
     buf_main st \<noteq> None \<and>
     array_sizes_ok (model st) \<and>
     cl_frame_id (vipc_client_main st) = last_vipc_frame_id st \<and>
     filt_rc (frame_dropped_filter st) = 10 \<and>
     filt_dt (frame_dropped_filter st) = 1 / 20 \<and>
     - 1 < filt_x (frame_dropped_filter st) \<and>
     filt_x (frame_dropped_filter st) \<le> 0"

text \<open>
  A loop with two cameras that has used frame \<open>i\<close> of both, stamped \<open>i\<close> times 50 ms,
  and has seen no frame dropped: the filter has the loop's parameters and is at 0.
\<close>

definition in_step_at :: "int \<Rightarrow> ('buf, 'img) loop_state \<Rightarrow> bool" where
  "in_step_at i st \<longleftrightarrow>
     use_extra_client st \<and>
     array_sizes_ok (model st) \<and>
     cl_timestamp_sof (vipc_client_main st) = 50000000 * i \<and>
     cl_timestamp_sof (vipc_client_extra st) = 50000000 * i \<and>
     last_vipc_frame_id st = i \<and>
     filt_x (frame_dropped_filter st) = 0 \<and>
     filt_rc (frame_dropped_filter st) = 10 \<and>
     filt_dt (frame_dropped_filter st) = 1 / 20"

section \<open>Array operations\<close>

lemma broadcast_to_length: "broadcast_to n v = Inr w \<Longrightarrow> length w = n"
  by (auto simp: broadcast_to_def split: if_splits)

lemma broadcast_to_same: "length v = n \<Longrightarrow> broadcast_to n v = Inr v"
  by (simp add: broadcast_to_def)

lemma shift_left_length: "length (shift_left n a) = length a"
  by (simp add: shift_left_def)

lemma shift_left_long: "n \<le> length a \<Longrightarrow> take (length a - n) (shift_left n a) = drop n a"
  by (simp add: shift_left_def)

lemma assign_tail_length: "assign_tail n a v = Inr w \<Longrightarrow> length w = length a"
  by (auto simp: assign_tail_def dest!: broadcast_to_length split: sum.splits)

lemma assign_all_length: "assign_all a v = Inr w \<Longrightarrow> length w = length a"
  by (simp add: assign_all_def broadcast_to_length)

lemma assign_all_same: "length v = length a \<Longrightarrow> assign_all a v = Inr v"
  by (simp add: assign_all_def broadcast_to_same)

lemma push_block:
  "n \<le> length a \<Longrightarrow> length v = n \<Longrightarrow> assign_tail n (shift_left n a) v = Inr (drop n a @ v)"
  by (simp add: assign_tail_def shift_left_length shift_left_long broadcast_to_same)

section \<open>Values of the \<^verbatim>\<open>float32\<close> rounding\<close>

lemma find_least_upt:
  assumes "j < n" and "P j" and "\<And>i. i < j \<Longrightarrow> \<not> P i"
  shows "find P [0..<n] = Some j"
  using assms by (auto simp: find_Some_iff intro!: exI [of _ j])

text \<open>Once the binade of a number is known, its rounding is one rounding to an integer.\<close>

lemma f32_round_binade:
  assumes lo: "j = 0 \<or> 2 ^ (j + 23) \<le> \<bar>x\<bar> * 2 ^ 149"
    and hi: "\<bar>x\<bar> * 2 ^ 149 < 2 ^ (j + 24)"
    and j: "j < 254"
  shows "f32_round x
           = sgn x * (of_int (round_half_even (\<bar>x\<bar> * 2 ^ 149 / 2 ^ j)) * 2 ^ j / 2 ^ 149)"
proof -
  have "\<not> \<bar>x\<bar> * 2 ^ 149 < 2 ^ (i + 24)" if "i < j" for i
  proof -
    from that lo have "2 ^ (j + 23) \<le> \<bar>x\<bar> * 2 ^ 149" by auto
    moreover from that have "(2::real) ^ (i + 24) \<le> 2 ^ (j + 23)"
      by (intro power_increasing) simp_all
    ultimately show ?thesis by linarith
  qed
  with hi j have "find (\<lambda>j. \<bar>x\<bar> * 2 ^ 149 < 2 ^ (j + 24)) [0..<254] = Some j"
    by (intro find_least_upt) simp_all
  then show ?thesis by (simp add: f32_round_def)
qed

lemma f32_round_0: "f32_round 0 = 0"
  using f32_round_binade [of 0 0] by simp

lemma f32_round_1: "f32_round 1 = 1"
  using f32_round_binade [of 126 1] by (simp add: round_half_even_def)

lemma f32_round_m1: "f32_round (- 1) = - 1"
  using f32_round_binade [of 126 "- 1"] by (simp add: round_half_even_def)

text \<open>\<^verbatim>\<open>np.float32(.99)\<close> is \<open>4152361 / 2^22\<close>, a little above 0.99.\<close>

lemma f32_round_099: "f32_round (99 / 100) = 4152361 / 4194304"
  using f32_round_binade [of 125 "99 / 100"] by (simp add: round_half_even_def)

lemma f32_round_f32_099: "f32_round (4152361 / 4194304) = 4152361 / 4194304"
  using f32_round_binade [of 125 "4152361 / 4194304"] by (simp add: round_half_even_def)

text \<open>\<^verbatim>\<open>np.float32(.01)\<close> is \<open>5368709 / 2^29\<close>, and \<open>1 - np.float32(.01)\<close> rounds to
  \<^verbatim>\<open>np.float32(.99)\<close>.\<close>

lemma f32_round_001: "f32_round (1 / 100) = 5368709 / 536870912"
  using f32_round_binade [of 119 "1 / 100"] by (simp add: round_half_even_def)

lemma f32_round_1_minus_001: "f32_round (1 - 5368709 / 536870912) = 4152361 / 4194304"
  using f32_round_binade [of 125 "1 - 5368709 / 536870912"] by (simp add: round_half_even_def)

text \<open>On values 0 and 1 the rounding changes nothing: the test of line 74 is the exact one.\<close>

lemma edge_pulse_bits:
  assumes "r = 0 \<or> r = 1" and "p = 0 \<or> p = 1"
  shows "edge_pulse r p = (if r - p > 99 / 100 then r else 0)"
  using assms
  by (auto simp: edge_pulse_def f32_round_0 f32_round_1 f32_round_m1 f32_round_099)

lemma edge_pulse_values:
  "edge_pulse 0 0 = 0" "edge_pulse 1 0 = 1" "edge_pulse 0 1 = 0" "edge_pulse 1 1 = 0"
  by (simp_all add: edge_pulse_bits)

text \<open>
  Off these values it does. A difference that is \<^verbatim>\<open>np.float32(.99)\<close> itself, or rounds to it,
  is above 0.99 and yet not above the threshold the source compares with.
\<close>

lemma edge_pulse_at_threshold:
  "edge_pulse (4152361 / 4194304) 0 = 0"
  "edge_pulse 1 (5368709 / 536870912) = 0"
  unfolding edge_pulse_def f32_round_099 f32_round_1_minus_001 diff_zero f32_round_f32_099
  by simp_all

lemma desire_pulse_of_same:
  "length raw = length prev \<Longrightarrow>
   desire_pulse_of raw prev = Inr (map (\<lambda>(r, p). edge_pulse r p) (zip raw prev))"
  by (simp add: desire_pulse_of_def broadcast_pair_def)

section \<open>What a call of \<^verbatim>\<open>eval\<close> that returns has done\<close>

lemma eval_InrE:
  assumes "eval prepare eo s b wb tr trw inp po = Inr r"
  obtains raw pulse where
    "set_item0 (in_desire_pulse inp) = Inr raw"
    "desire_pulse_of raw (prev_desire s) = Inr pulse"
    "assign_tail DESIRE_LEN (shift_left DESIRE_LEN (desire_pulse s)) pulse
       = Inr (desire_pulse (er_state r))"
    "assign_all (prev_desire s) raw = Inr (prev_desire (er_state r))"
    "assign_all (traffic_convention s) (in_traffic_convention inp)
       = Inr (traffic_convention (er_state r))"
    "assign_all (nav_features s) (in_nav_features inp) = Inr (nav_features (er_state r))"
    "er_desire_pulse r = raw"
    "input_imgs (er_state r) = Some (prepare b (concat tr))"
    "big_input_imgs (er_state r)
       = (case wb of None \<Rightarrow> big_input_imgs s | Some w \<Rightarrow> Some (prepare w (concat trw)))"
    "po \<Longrightarrow> feature_buffer (er_state r) = feature_buffer s \<and>
            output_buf (er_state r) = output_buf s \<and> er_return r = None"
    "\<not> po \<Longrightarrow> assign_tail FEATURE_LEN (shift_left FEATURE_LEN (feature_buffer s))
                (take FEATURE_LEN (drop OUTPUT_SIZE eo)) = Inr (feature_buffer (er_state r)) \<and>
              output_buf (er_state r) = eo \<and> er_return r = Some eo"
  using assms unfolding eval_def
  by (auto simp: Let_def split: sum.splits option.splits if_splits)

lemma eval_lengths:
  assumes "eval prepare eo s b wb tr trw inp po = Inr r"
  shows "length (desire_pulse (er_state r)) = length (desire_pulse s)"
    and "length (feature_buffer (er_state r)) = length (feature_buffer s)"
    and "length (prev_desire (er_state r)) = length (prev_desire s)"
    and "length (traffic_convention (er_state r)) = length (traffic_convention s)"
    and "length (nav_features (er_state r)) = length (nav_features s)"
proof -
  from assms show "length (desire_pulse (er_state r)) = length (desire_pulse s)"
    by (elim eval_InrE) (simp add: assign_tail_length shift_left_length)
  from assms show "length (feature_buffer (er_state r)) = length (feature_buffer s)"
    by (elim eval_InrE, cases po) (auto dest: assign_tail_length simp: shift_left_length)
  from assms show "length (prev_desire (er_state r)) = length (prev_desire s)"
    by (elim eval_InrE) (simp add: assign_all_length)
  from assms show "length (traffic_convention (er_state r)) = length (traffic_convention s)"
    by (elim eval_InrE) (simp add: assign_all_length)
  from assms show "length (nav_features (er_state r)) = length (nav_features s)"
    by (elim eval_InrE) (simp add: assign_all_length)
qed

lemma eval_keeps_sizes:
  "eval prepare eo s b wb tr trw inp po = Inr r \<Longrightarrow> array_sizes_ok s \<Longrightarrow>
   array_sizes_ok (er_state r)"
  by (simp add: array_sizes_ok_def eval_lengths)

lemma init_sizes_ok: "array_sizes_ok init_model_state"
  by (simp add: array_sizes_ok_def init_model_state_def)

lemma assign_tail_full:
  assumes "assign_tail n a v = Inr w" and "length v = n" and "1 < n"
  shows "n \<le> length a \<and> w = take (length a - n) a @ v"
  using assms
  by (auto simp: assign_tail_def broadcast_to_def min_def split: if_splits)

lemma assign_all_full:
  assumes "assign_all a v = Inr w" and "length v \<noteq> 1"
  shows "length a = length v \<and> w = v"
  using assms by (auto simp: assign_all_def broadcast_to_def split: if_splits)

section \<open>A call of \<^verbatim>\<open>eval\<close> on arrays of the right sizes returns\<close>

lemma eval_returns:
  assumes s: "array_sizes_ok s" and i: "input_sizes_ok inp"
    and e: "po \<or> OUTPUT_SIZE + FEATURE_LEN \<le> length eo"
  shows "\<exists>r. eval prepare eo s b wb tr trw inp po = Inr r"
proof -
  let ?raw = "(in_desire_pulse inp)[0 := 0]"
  let ?pulse = "map (\<lambda>(r, p). edge_pulse r p) (zip ?raw (prev_desire s))"
  have 1: "set_item0 (in_desire_pulse inp) = Inr ?raw"
    using i by (auto simp: set_item0_def input_sizes_ok_def DESIRE_LEN_def)
  have 2: "desire_pulse_of ?raw (prev_desire s) = Inr ?pulse"
    using s i by (simp add: desire_pulse_of_same array_sizes_ok_def input_sizes_ok_def)
  have 3: "assign_tail DESIRE_LEN (shift_left DESIRE_LEN (desire_pulse s)) ?pulse
             = Inr (drop DESIRE_LEN (desire_pulse s) @ ?pulse)"
    using s i by (intro push_block) (simp_all add: array_sizes_ok_def input_sizes_ok_def)
  have 4: "assign_all (prev_desire s) ?raw = Inr ?raw"
    using s i by (simp add: assign_all_same array_sizes_ok_def input_sizes_ok_def)
  have 5: "assign_all (traffic_convention s) (in_traffic_convention inp)
             = Inr (in_traffic_convention inp)"
    using s i by (simp add: assign_all_same array_sizes_ok_def input_sizes_ok_def)
  have 6: "assign_all (nav_features s) (in_nav_features inp) = Inr (in_nav_features inp)"
    using s i by (simp add: assign_all_same array_sizes_ok_def input_sizes_ok_def)
  show ?thesis
  proof (cases po)
    case True
    then show ?thesis
      unfolding eval_def 1 2 3 4 5 6 sum.case
      by (simp add: Let_def split: option.split prod.split)
  next
    case False
    with e have "OUTPUT_SIZE + FEATURE_LEN \<le> length eo" by simp
    then have len: "length (take FEATURE_LEN (drop OUTPUT_SIZE eo)) = FEATURE_LEN" by simp
    have fb: "FEATURE_LEN \<le> length (feature_buffer s)"
      using s by (simp add: array_sizes_ok_def HISTORY_BUFFER_LEN_def)
    have 7: "assign_tail FEATURE_LEN (shift_left FEATURE_LEN (feature_buffer s))
               (take FEATURE_LEN (drop OUTPUT_SIZE eo))
             = Inr (drop FEATURE_LEN (feature_buffer s) @ take FEATURE_LEN (drop OUTPUT_SIZE eo))"
      by (rule push_block [OF fb len])
    from False show ?thesis
      unfolding eval_def 1 2 3 4 5 6 sum.case
      by (simp add: 7 Let_def split: option.split prod.split)
  qed
qed

section \<open>The desire pulse\<close>

text \<open>
  Claim C1, as amended. A call of \<^verbatim>\<open>eval\<close> with a raw desire vector of \<^verbatim>\<open>DESIRE_LEN\<close> elements first
  sets element 0 of that vector to zero. The newest block of \<^verbatim>\<open>DESIRE_LEN\<close> elements of the
  desire history then holds, at each index \<open>i\<close>, the raw value if the \<^verbatim>\<open>float32\<close> difference of
  the raw value and the previous desire at \<open>i\<close> exceeds \<^verbatim>\<open>np.float32(.99)\<close> and zero otherwise;
  where both values are 0 or 1 this is the raw value if it exceeds the previous desire by more
  than 0.99 and zero otherwise. The previous desire becomes the raw vector with its element 0
  zeroed.
\<close>

theorem pushDesire_edge_pulse:
  assumes len: "length (in_desire_pulse inp) = DESIRE_LEN"
    and ret: "eval prepare eo s b wb tr trw inp po = Inr r"
  shows "er_desire_pulse r = (in_desire_pulse inp)[0 := 0] \<and>
         er_desire_pulse r ! 0 = 0 \<and>
         (\<forall>i<DESIRE_LEN.
            desire_pulse (er_state r) ! (length (desire_pulse (er_state r)) - DESIRE_LEN + i) =
              (if f32_round (er_desire_pulse r ! i - prev_desire s ! i) > f32_round (99 / 100)
               then er_desire_pulse r ! i else 0)) \<and>
         (\<forall>i<DESIRE_LEN.
            (er_desire_pulse r ! i = 0 \<or> er_desire_pulse r ! i = 1) \<and>
            (prev_desire s ! i = 0 \<or> prev_desire s ! i = 1) \<longrightarrow>
            desire_pulse (er_state r) ! (length (desire_pulse (er_state r)) - DESIRE_LEN + i) =
              (if er_desire_pulse r ! i - prev_desire s ! i > 99 / 100
               then er_desire_pulse r ! i else 0)) \<and>
         prev_desire (er_state r) = (in_desire_pulse inp)[0 := 0]"
proof -
  let ?raw = "(in_desire_pulse inp)[0 := 0]"
  from ret obtain raw pulse where
    a: "set_item0 (in_desire_pulse inp) = Inr raw"
    and p: "desire_pulse_of raw (prev_desire s) = Inr pulse"
    and t: "assign_tail DESIRE_LEN (shift_left DESIRE_LEN (desire_pulse s)) pulse
              = Inr (desire_pulse (er_state r))"
    and d: "assign_all (prev_desire s) raw = Inr (prev_desire (er_state r))"
    and e: "er_desire_pulse r = raw"
    by (rule eval_InrE)
  from a have raw: "raw = ?raw"
    by (simp add: set_item0_def split: if_splits)
  have lraw: "length raw = DESIRE_LEN" using raw len by simp
  from d lraw have prev: "length (prev_desire s) = DESIRE_LEN" "prev_desire (er_state r) = raw"
    using assign_all_full [of "prev_desire s" raw "prev_desire (er_state r)"]
    by (simp_all add: DESIRE_LEN_def)
  from p lraw prev have pulse:
    "pulse = map (\<lambda>(r, p). edge_pulse r p) (zip raw (prev_desire s))"
    by (simp add: desire_pulse_of_same)
  then have lp: "length pulse = DESIRE_LEN" using lraw prev by simp
  from assign_tail_full [OF t lp] have
    dp: "desire_pulse (er_state r) =
           take (length (desire_pulse s) - DESIRE_LEN) (shift_left DESIRE_LEN (desire_pulse s)) @ pulse"
    by (simp_all add: DESIRE_LEN_def shift_left_length)
  have ldp: "length (desire_pulse (er_state r)) = length (desire_pulse s)"
    using ret by (rule eval_lengths)
  have newest: "desire_pulse (er_state r) ! (length (desire_pulse (er_state r)) - DESIRE_LEN + i)
                  = pulse ! i" for i
  proof -
    let ?old = "take (length (desire_pulse s) - DESIRE_LEN) (shift_left DESIRE_LEN (desire_pulse s))"
    have "length ?old = length (desire_pulse s) - DESIRE_LEN"
      by (simp add: shift_left_length)
    then have "(?old @ pulse) ! (length (desire_pulse s) - DESIRE_LEN + i) = pulse ! i"
      by (metis nth_append_length_plus)
    then show ?thesis unfolding ldp by (subst dp)
  qed
  have at: "pulse ! i = edge_pulse (raw ! i) (prev_desire s ! i)"
    if "i < DESIRE_LEN" for i
    using that lraw prev unfolding pulse by simp
  have zero: "raw ! 0 = 0" using raw len by (simp add: DESIRE_LEN_def)
  have f32: "\<forall>i<DESIRE_LEN.
            desire_pulse (er_state r) ! (length (desire_pulse (er_state r)) - DESIRE_LEN + i) =
              (if f32_round (er_desire_pulse r ! i - prev_desire s ! i) > f32_round (99 / 100)
               then er_desire_pulse r ! i else 0)"
    unfolding newest e using at by (simp add: edge_pulse_def)
  have bits: "\<forall>i<DESIRE_LEN.
            (er_desire_pulse r ! i = 0 \<or> er_desire_pulse r ! i = 1) \<and>
            (prev_desire s ! i = 0 \<or> prev_desire s ! i = 1) \<longrightarrow>
            desire_pulse (er_state r) ! (length (desire_pulse (er_state r)) - DESIRE_LEN + i) =
              (if er_desire_pulse r ! i - prev_desire s ! i > 99 / 100
               then er_desire_pulse r ! i else 0)"
    unfolding newest e using at edge_pulse_bits by simp
  from raw e have "er_desire_pulse r = ?raw" by simp
  moreover from zero e have "er_desire_pulse r ! 0 = 0" by simp
  moreover from prev(2) raw have "prev_desire (er_state r) = ?raw" by simp
  ultimately show ?thesis using f32 bits by blast
qed

theorem pushDesire_edge_pulse_witness:
  "\<exists>r. eval (\<lambda>b t. b) (replicate 6120 0) init_model_state (0::nat) None [] []
          \<lparr> in_desire_pulse = [1, 0, 0, 1, 0, 0, 0, 0], in_traffic_convention = [1, 0],
            in_driving_style = [], in_nav_features = replicate 256 0 \<rparr> True = Inr r \<and>
        er_desire_pulse r = [0, 0, 0, 1, 0, 0, 0, 0] \<and>
        prev_desire (er_state r) = [0, 0, 0, 1, 0, 0, 0, 0] \<and>
        desire_pulse (er_state r) ! 795 = 1 \<and> desire_pulse (er_state r) ! 792 = 0"
proof -
  let ?inp = "\<lparr> in_desire_pulse = [1, 0, 0, 1, 0, 0, 0, 0], in_traffic_convention = [1, 0],
            in_driving_style = [], in_nav_features = replicate 256 0 \<rparr>"
  have "\<exists>r. eval (\<lambda>b t. b) (replicate 6120 0) init_model_state (0::nat) None [] [] ?inp True = Inr r"
    by (rule eval_returns)
       (simp_all add: init_sizes_ok input_sizes_ok_def DESIRE_LEN_def TRAFFIC_CONVENTION_LEN_def
          NAV_FEATURE_LEN_def)
  then obtain r where
    r: "eval (\<lambda>b t. b) (replicate 6120 0) init_model_state (0::nat) None [] [] ?inp True = Inr r" ..
  have len: "length (in_desire_pulse ?inp) = DESIRE_LEN" by (simp add: DESIRE_LEN_def)
  have l: "length (desire_pulse (er_state r)) = 800"
    using eval_lengths(1) [OF r]
    by (simp add: init_model_state_def DESIRE_LEN_def HISTORY_BUFFER_LEN_def)
  have p: "prev_desire (init_model_state :: nat model_state) = replicate 8 0"
    by (simp add: init_model_state_def DESIRE_LEN_def)
  note w = pushDesire_edge_pulse [OF len r]
  from w have 1: "er_desire_pulse r = [0, 0, 0, 1, 0, 0, 0, 0]"
    by simp
  from w have 2: "prev_desire (er_state r) = [0, 0, 0, 1, 0, 0, 0, 0]"
    by simp
  note 3 = w [THEN conjunct2, THEN conjunct2, THEN conjunct1, rule_format]
  note 4 = w [THEN conjunct2, THEN conjunct2, THEN conjunct2, THEN conjunct1, rule_format]
  have "desire_pulse (er_state r) ! 795 = 1"
    using 3 [of 3] unfolding l 1 p DESIRE_LEN_def
    by (simp add: f32_round_1 f32_round_099)
  moreover have "desire_pulse (er_state r) ! 792 = 0"
    using 4 [of 0] unfolding l 1 p DESIRE_LEN_def by simp
  ultimately show ?thesis using r 1 2 by auto
qed

text \<open>
  The test is not the exact one. From the initial state, where the previous desire is zero, a
  raw desire of \<^verbatim>\<open>np.float32(.99)\<close> \<open>= 4152361 / 2^22\<close> at index 1 exceeds the previous
  desire by more than 0.99, and the newest block holds zero at index 1, not the raw value.
\<close>

theorem pulse_threshold_is_float32:
  "\<exists>r. eval (\<lambda>b t. b) (replicate 6120 0) init_model_state (0::nat) None [] []
          \<lparr> in_desire_pulse = [0, 4152361 / 4194304, 0, 0, 0, 0, 0, 0],
            in_traffic_convention = [1, 0],
            in_driving_style = [], in_nav_features = replicate 256 0 \<rparr> True = Inr r \<and>
        er_desire_pulse r ! 1 = 4152361 / 4194304 \<and>
        er_desire_pulse r ! 1 - prev_desire (init_model_state :: nat model_state) ! 1 > 99 / 100 \<and>
        desire_pulse (er_state r) ! (length (desire_pulse (er_state r)) - DESIRE_LEN + 1) = 0"
proof -
  let ?raw = "[0, 4152361 / 4194304, 0, 0, 0, 0, 0, 0] :: real list"
  let ?inp = "\<lparr> in_desire_pulse = ?raw, in_traffic_convention = [1, 0],
            in_driving_style = [], in_nav_features = replicate 256 0 \<rparr>"
  let ?s = "init_model_state :: nat model_state"
  have "\<exists>r. eval (\<lambda>b t. b) (replicate 6120 0) ?s (0::nat) None [] [] ?inp True = Inr r"
    by (rule eval_returns)
       (simp_all add: init_sizes_ok input_sizes_ok_def DESIRE_LEN_def TRAFFIC_CONVENTION_LEN_def
          NAV_FEATURE_LEN_def)
  then obtain r where
    r: "eval (\<lambda>b t. b) (replicate 6120 0) ?s (0::nat) None [] [] ?inp True = Inr r" ..
  have p: "prev_desire ?s = [0, 0, 0, 0, 0, 0, 0, 0]"
    by (simp add: init_model_state_def DESIRE_LEN_def eval_nat_numeral)
  from r obtain raw pulse where
    a: "set_item0 (in_desire_pulse ?inp) = Inr raw"
    and q: "desire_pulse_of raw (prev_desire ?s) = Inr pulse"
    and t: "assign_tail DESIRE_LEN (shift_left DESIRE_LEN (desire_pulse ?s)) pulse
              = Inr (desire_pulse (er_state r))"
    and e: "er_desire_pulse r = raw"
    by (rule eval_InrE)
  from a have raw: "raw = ?raw"
    by (simp add: set_item0_def)
  from q have pulse: "pulse = [0, 0, 0, 0, 0, 0, 0, 0]"
    unfolding raw p
    by (simp add: desire_pulse_of_same edge_pulse_def f32_round_0 f32_round_099
          f32_round_f32_099)
  then have lp: "length pulse = DESIRE_LEN" by (simp add: DESIRE_LEN_def)
  let ?old = "take (length (shift_left DESIRE_LEN (desire_pulse ?s)) - DESIRE_LEN)
                (shift_left DESIRE_LEN (desire_pulse ?s))"
  from assign_tail_full [OF t lp] have dp: "desire_pulse (er_state r) = ?old @ pulse"
    by (simp add: DESIRE_LEN_def)
  have lo: "length ?old = length (desire_pulse (er_state r)) - DESIRE_LEN"
    using eval_lengths(1) [OF r] by (simp add: shift_left_length)
  have "(?old @ pulse) ! (length ?old + 1) = pulse ! 1"
    by (rule nth_append_length_plus)
  then have "desire_pulse (er_state r) ! (length (desire_pulse (er_state r)) - DESIRE_LEN + 1) = 0"
    unfolding lo dp [symmetric] by (simp add: pulse)
  moreover have "er_desire_pulse r ! 1 = 4152361 / 4194304"
    unfolding e raw by simp
  moreover have "er_desire_pulse r ! 1 - prev_desire ?s ! 1 > 99 / 100"
    unfolding e raw p by simp
  ultimately show ?thesis using r by blast
qed

section \<open>Sequences of calls\<close>

lemma evals_keep_sizes:
  "evals prepare s cs = Inr s' \<Longrightarrow> array_sizes_ok s \<Longrightarrow> array_sizes_ok s'"
proof (induction cs arbitrary: s)
  case Nil
  then show ?case by simp
next
  case (Cons c cs)
  then show ?case
    by (auto split: sum.splits dest: eval_keeps_sizes)
qed

lemma evals_returns:
  assumes "array_sizes_ok s"
    and "\<forall>c\<in>set cs. input_sizes_ok (ec_inputs c) \<and>
           (ec_prepare_only c \<or> OUTPUT_SIZE + FEATURE_LEN \<le> length (ec_engine_out c))"
  shows "\<exists>s'. evals prepare s cs = Inr s'"
  using assms
proof (induction cs arbitrary: s)
  case Nil
  then show ?case by simp
next
  case (Cons c cs)
  have "\<exists>r. eval prepare (ec_engine_out c) s (ec_buf c) (ec_wbuf c) (ec_transform c)
          (ec_transform_wide c) (ec_inputs c) (ec_prepare_only c) = Inr r"
    by (rule eval_returns) (use Cons.prems in auto)
  then obtain r where
    r: "eval prepare (ec_engine_out c) s (ec_buf c) (ec_wbuf c) (ec_transform c)
          (ec_transform_wide c) (ec_inputs c) (ec_prepare_only c) = Inr r" ..
  with Cons.prems have "array_sizes_ok (er_state r)"
    by (auto dest: eval_keeps_sizes)
  with Cons.IH [of "er_state r"] Cons.prems obtain s' where "evals prepare (er_state r) cs = Inr s'"
    by auto
  with r show ?case by simp
qed

section \<open>The lengths of the history buffers\<close>

text \<open>
  Claim C6. After initialisation and after every call of \<^verbatim>\<open>eval\<close>, with or without
  inference, the desire history buffer has \<^verbatim>\<open>(HISTORY_BUFFER_LEN+1)*DESIRE_LEN\<close> = 800
  elements and the feature history buffer has \<^verbatim>\<open>HISTORY_BUFFER_LEN*FEATURE_LEN\<close> = 12672
  elements: this holds of the state that any sequence of calls (the empty one included)
  leaves behind, starting from the initial state.
\<close>

theorem buffer_lengths_invariant:
  "evals prepare init_model_state cs = Inr s \<Longrightarrow>
   length (desire_pulse s) = (HISTORY_BUFFER_LEN + 1) * DESIRE_LEN \<and>
   (HISTORY_BUFFER_LEN + 1) * DESIRE_LEN = 800 \<and>
   length (feature_buffer s) = HISTORY_BUFFER_LEN * FEATURE_LEN \<and>
   HISTORY_BUFFER_LEN * FEATURE_LEN = 12672"
  using evals_keep_sizes [OF _ init_sizes_ok, of prepare cs s]
  by (simp add: array_sizes_ok_def HISTORY_BUFFER_LEN_def DESIRE_LEN_def FEATURE_LEN_def)

theorem buffer_lengths_invariant_witness:
  "\<exists>s. evals (\<lambda>b t. b) init_model_state
          [\<lparr> ec_engine_out = replicate 6120 0, ec_buf = (0::nat), ec_wbuf = Some 1,
             ec_transform = [], ec_transform_wide = [],
             ec_inputs = \<lparr> in_desire_pulse = [0, 0, 1, 0, 0, 0, 0, 0],
                            in_traffic_convention = [1, 0], in_driving_style = [],
                            in_nav_features = replicate 256 0 \<rparr>,
             ec_prepare_only = True \<rparr>,
           \<lparr> ec_engine_out = replicate 6120 1, ec_buf = 2, ec_wbuf = None,
             ec_transform = [], ec_transform_wide = [],
             ec_inputs = \<lparr> in_desire_pulse = [0, 0, 0, 0, 0, 0, 0, 0],
                            in_traffic_convention = [0, 1], in_driving_style = [],
                            in_nav_features = replicate 256 0 \<rparr>,
             ec_prepare_only = False \<rparr>] = Inr s \<and>
        length (desire_pulse s) = 800 \<and> length (feature_buffer s) = 12672"
proof -
  let ?cs = "[\<lparr> ec_engine_out = replicate 6120 0, ec_buf = (0::nat), ec_wbuf = Some 1,
             ec_transform = [], ec_transform_wide = [],
             ec_inputs = \<lparr> in_desire_pulse = [0, 0, 1, 0, 0, 0, 0, 0],
                            in_traffic_convention = [1, 0], in_driving_style = [],
                            in_nav_features = replicate 256 0 \<rparr>,
             ec_prepare_only = True \<rparr>,
           \<lparr> ec_engine_out = replicate 6120 1, ec_buf = 2, ec_wbuf = None,
             ec_transform = [], ec_transform_wide = [],
             ec_inputs = \<lparr> in_desire_pulse = [0, 0, 0, 0, 0, 0, 0, 0],
                            in_traffic_convention = [0, 1], in_driving_style = [],
                            in_nav_features = replicate 256 0 \<rparr>,
             ec_prepare_only = False \<rparr>]"
  have "\<exists>s. evals (\<lambda>b t. b) (init_model_state :: nat model_state) ?cs = Inr s"
    by (rule evals_returns [OF init_sizes_ok])
       (simp add: input_sizes_ok_def DESIRE_LEN_def TRAFFIC_CONVENTION_LEN_def NAV_FEATURE_LEN_def
          OUTPUT_SIZE_def FEATURE_LEN_def)
  then obtain s where s: "evals (\<lambda>b t. b) (init_model_state :: nat model_state) ?cs = Inr s" ..
  from buffer_lengths_invariant [OF s] s show ?thesis by auto
qed

section \<open>The history buffers are queues\<close>

lemma eval_feature_push:
  assumes ret: "eval prepare eo s b wb tr trw inp False = Inr r"
    and eo: "OUTPUT_SIZE + FEATURE_LEN \<le> length eo"
  shows "FEATURE_LEN \<le> length (feature_buffer s) \<and>
         feature_buffer (er_state r)
           = drop FEATURE_LEN (feature_buffer s) @ take FEATURE_LEN (drop OUTPUT_SIZE eo)"
proof -
  from ret have t: "assign_tail FEATURE_LEN (shift_left FEATURE_LEN (feature_buffer s))
                (take FEATURE_LEN (drop OUTPUT_SIZE eo)) = Inr (feature_buffer (er_state r))"
    by (elim eval_InrE) simp
  from eo have len: "length (take FEATURE_LEN (drop OUTPUT_SIZE eo)) = FEATURE_LEN" by simp
  from assign_tail_full [OF t len] show ?thesis
    by (simp add: FEATURE_LEN_def shift_left_length shift_left_long)
qed

lemma evals_feature_buffer:
  assumes "evals prepare s cs = Inr s'"
    and "\<forall>c\<in>set cs. \<not> ec_prepare_only c \<and> OUTPUT_SIZE + FEATURE_LEN \<le> length (ec_engine_out c)"
    and "FEATURE_LEN \<le> length (feature_buffer s)"
  shows "feature_buffer s' =
           drop (FEATURE_LEN * length cs)
             (feature_buffer s @
              concat (map (\<lambda>c. take FEATURE_LEN (drop OUTPUT_SIZE (ec_engine_out c))) cs))"
  using assms
proof (induction cs arbitrary: s)
  case Nil
  then show ?case by simp
next
  case (Cons c cs)
  let ?f = "\<lambda>c. take FEATURE_LEN (drop OUTPUT_SIZE (ec_engine_out c))"
  from Cons.prems(1) obtain r where
    r: "eval prepare (ec_engine_out c) s (ec_buf c) (ec_wbuf c) (ec_transform c)
          (ec_transform_wide c) (ec_inputs c) (ec_prepare_only c) = Inr r"
    and rest: "evals prepare (er_state r) cs = Inr s'"
    by (auto split: sum.splits)
  from Cons.prems(2) have c: "\<not> ec_prepare_only c"
    "OUTPUT_SIZE + FEATURE_LEN \<le> length (ec_engine_out c)" by simp_all
  from r c have push: "feature_buffer (er_state r) = drop FEATURE_LEN (feature_buffer s) @ ?f c"
    using eval_feature_push [of prepare "ec_engine_out c" s] by simp
  have len: "length (feature_buffer (er_state r)) = length (feature_buffer s)"
    using r by (rule eval_lengths)
  from Cons.IH [OF rest] Cons.prems(2,3) len
  have "feature_buffer s' =
          drop (FEATURE_LEN * length cs) (feature_buffer (er_state r) @ concat (map ?f cs))"
    by simp
  also have "feature_buffer (er_state r) @ concat (map ?f cs)
               = drop FEATURE_LEN (feature_buffer s @ concat (map ?f (c # cs)))"
    using Cons.prems(3) by (simp add: push)
  finally show ?case by (simp only: drop_drop length_Cons mult_Suc_right add.commute)
qed

lemma block_push_older:
  assumes "length a = N * n" and "Suc k < N"
  shows "block n k (drop n a @ v) = block n (Suc k) a"
proof -
  have "Suc (Suc k) * n \<le> N * n"
    using assms(2) by (intro mult_le_mono1) simp
  then have "k * n + n \<le> length a - n"
    using assms(1) by simp
  then have "take n (drop (k * n) (drop n a @ v)) = take n (drop (k * n) (drop n a))"
    by simp
  then show ?thesis
    by (simp add: block_def add.commute)
qed

lemma block_push_newest:
  assumes "length a = N * n" and "0 < N" and "length v = n"
  shows "block n (N - 1) (drop n a @ v) = v"
proof -
  have "length (drop n a) = (N - 1) * n"
    using assms(1,2) by (simp add: diff_mult_distrib)
  then show ?thesis
    using assms(3) by (simp add: block_def)
qed

lemma eval_desire_push:
  assumes ret: "eval prepare eo s b wb tr trw inp po = Inr r"
    and len: "length (in_desire_pulse inp) = DESIRE_LEN"
  shows "length (prev_desire s) = DESIRE_LEN \<and> DESIRE_LEN \<le> length (desire_pulse s) \<and>
         desire_pulse (er_state r) =
           drop DESIRE_LEN (desire_pulse s) @
           map (\<lambda>(x, p). edge_pulse x p)
             (zip ((in_desire_pulse inp)[0 := 0]) (prev_desire s))"
proof -
  from ret obtain raw pulse where
    a: "set_item0 (in_desire_pulse inp) = Inr raw"
    and p: "desire_pulse_of raw (prev_desire s) = Inr pulse"
    and t: "assign_tail DESIRE_LEN (shift_left DESIRE_LEN (desire_pulse s)) pulse
              = Inr (desire_pulse (er_state r))"
    and d: "assign_all (prev_desire s) raw = Inr (prev_desire (er_state r))"
    by (rule eval_InrE)
  from a have raw: "raw = (in_desire_pulse inp)[0 := 0]"
    by (simp add: set_item0_def split: if_splits)
  have lraw: "length raw = DESIRE_LEN" using raw len by simp
  from d lraw have prev: "length (prev_desire s) = DESIRE_LEN"
    using assign_all_full [of "prev_desire s" raw "prev_desire (er_state r)"]
    by (simp add: DESIRE_LEN_def)
  from p lraw prev have pulse:
    "pulse = map (\<lambda>(x, p). edge_pulse x p) (zip raw (prev_desire s))"
    by (simp add: desire_pulse_of_same)
  then have lp: "length pulse = DESIRE_LEN" using lraw prev by simp
  from assign_tail_full [OF t lp] have
    "DESIRE_LEN \<le> length (desire_pulse s)"
    "desire_pulse (er_state r) = drop DESIRE_LEN (desire_pulse s) @ pulse"
    by (simp_all add: DESIRE_LEN_def shift_left_length shift_left_long)
  with prev show ?thesis unfolding pulse raw by simp
qed

text \<open>
  Claim C7. Each push shifts a history buffer by one block: after a call of \<^verbatim>\<open>eval\<close>, block
  \<open>k\<close> of the desire history is the former block \<open>k + 1\<close> and its newest block is the
  pulse pushed; after a call that runs the engine the same holds of the feature history
  and the feature vector taken from the engine's output. Hence \<^verbatim>\<open>HISTORY_BUFFER_LEN + 1\<close>
  = 100 calls that run the engine, from any state with arrays of the right sizes, leave
  the feature history equal to the feature vectors of the calls after the first, in order.
\<close>

theorem history_buffers_fifo:
  assumes ret: "eval prepare eo s b wb tr trw inp po = Inr r"
    and sizes: "array_sizes_ok s"
    and len: "length (in_desire_pulse inp) = DESIRE_LEN"
    and eo: "length eo = MODEL_OUTPUT_SIZE"
  shows "(\<forall>k<HISTORY_BUFFER_LEN.
            block DESIRE_LEN k (desire_pulse (er_state r)) = block DESIRE_LEN (Suc k) (desire_pulse s)) \<and>
         block DESIRE_LEN HISTORY_BUFFER_LEN (desire_pulse (er_state r)) =
           map (\<lambda>(x, p). edge_pulse x p)
             (zip ((in_desire_pulse inp)[0 := 0]) (prev_desire s)) \<and>
         (\<not> po \<longrightarrow>
            (\<forall>k<HISTORY_BUFFER_LEN - 1.
               block FEATURE_LEN k (feature_buffer (er_state r))
                 = block FEATURE_LEN (Suc k) (feature_buffer s)) \<and>
            block FEATURE_LEN (HISTORY_BUFFER_LEN - 1) (feature_buffer (er_state r))
              = take FEATURE_LEN (drop OUTPUT_SIZE eo)) \<and>
         (\<forall>cs s'. evals prepare s cs = Inr s' \<and> length cs = HISTORY_BUFFER_LEN + 1 \<and>
                   (\<forall>c\<in>set cs. \<not> ec_prepare_only c \<and> length (ec_engine_out c) = MODEL_OUTPUT_SIZE)
            \<longrightarrow> feature_buffer s' =
                  concat (map (\<lambda>c. take FEATURE_LEN (drop OUTPUT_SIZE (ec_engine_out c))) (tl cs)))"
proof (intro conjI allI impI)
  let ?pulse = "map (\<lambda>(x, p). edge_pulse x p)
                  (zip ((in_desire_pulse inp)[0 := 0]) (prev_desire s))"
  have dp: "desire_pulse (er_state r) = drop DESIRE_LEN (desire_pulse s) @ ?pulse"
    and prev: "length (prev_desire s) = DESIRE_LEN"
    using eval_desire_push [OF ret len] by simp_all
  have ldp: "length (desire_pulse s) = (HISTORY_BUFFER_LEN + 1) * DESIRE_LEN"
    using sizes by (simp add: array_sizes_ok_def)
  have lp: "length ?pulse = DESIRE_LEN" using len prev by simp
  show "block DESIRE_LEN k (desire_pulse (er_state r)) = block DESIRE_LEN (Suc k) (desire_pulse s)"
    if "k < HISTORY_BUFFER_LEN" for k
    unfolding dp using that by (intro block_push_older [OF ldp]) simp
  show "block DESIRE_LEN HISTORY_BUFFER_LEN (desire_pulse (er_state r)) = ?pulse"
    unfolding dp using block_push_newest [OF ldp _ lp] by simp
next
  assume "\<not> po"
  with ret have ret': "eval prepare eo s b wb tr trw inp False = Inr r" by simp
  have fb: "feature_buffer (er_state r)
              = drop FEATURE_LEN (feature_buffer s) @ take FEATURE_LEN (drop OUTPUT_SIZE eo)"
    using eval_feature_push [OF ret'] eo
    by (simp add: MODEL_OUTPUT_SIZE_def OUTPUT_SIZE_def FEATURE_LEN_def)
  have lfb: "length (feature_buffer s) = HISTORY_BUFFER_LEN * FEATURE_LEN"
    using sizes by (simp add: array_sizes_ok_def)
  have lv: "length (take FEATURE_LEN (drop OUTPUT_SIZE eo)) = FEATURE_LEN"
    using eo by (simp add: MODEL_OUTPUT_SIZE_def OUTPUT_SIZE_def FEATURE_LEN_def)
  show "block FEATURE_LEN k (feature_buffer (er_state r)) = block FEATURE_LEN (Suc k) (feature_buffer s)"
    if "k < HISTORY_BUFFER_LEN - 1" for k
    unfolding fb using that by (intro block_push_older [OF lfb]) simp
  show "block FEATURE_LEN (HISTORY_BUFFER_LEN - 1) (feature_buffer (er_state r))
          = take FEATURE_LEN (drop OUTPUT_SIZE eo)"
    unfolding fb by (rule block_push_newest [OF lfb _ lv]) (simp add: HISTORY_BUFFER_LEN_def)
next
  fix cs s'
  let ?f = "\<lambda>c. take FEATURE_LEN (drop OUTPUT_SIZE (ec_engine_out c))"
  assume a: "evals prepare s cs = Inr s' \<and> length cs = HISTORY_BUFFER_LEN + 1 \<and>
             (\<forall>c\<in>set cs. \<not> ec_prepare_only c \<and> length (ec_engine_out c) = MODEL_OUTPUT_SIZE)"
  have lfb: "length (feature_buffer s) = HISTORY_BUFFER_LEN * FEATURE_LEN"
    using sizes by (simp add: array_sizes_ok_def)
  from a obtain c cs' where cs: "cs = c # cs'" by (cases cs) auto
  have lc: "length (?f c) = FEATURE_LEN"
    using a cs by (simp add: MODEL_OUTPUT_SIZE_def OUTPUT_SIZE_def FEATURE_LEN_def)
  have "feature_buffer s' = drop (FEATURE_LEN * length cs) (feature_buffer s @ concat (map ?f cs))"
    using a lfb
    by (intro evals_feature_buffer)
       (auto simp: MODEL_OUTPUT_SIZE_def OUTPUT_SIZE_def FEATURE_LEN_def HISTORY_BUFFER_LEN_def)
  also have "FEATURE_LEN * length cs = length (feature_buffer s) + FEATURE_LEN"
    using a lfb by simp
  also have "drop (length (feature_buffer s) + FEATURE_LEN) (feature_buffer s @ concat (map ?f cs))
               = drop FEATURE_LEN (concat (map ?f cs))"
    by (simp add: drop_append)
  also have "\<dots> = concat (map ?f (tl cs))"
    using lc by (simp add: cs)
  finally show "feature_buffer s' = concat (map ?f (tl cs))" .
qed


lemma replicate_8: "replicate 8 x = [x, x, x, x, x, x, x, x]"
  by (simp add: eval_nat_numeral)

theorem history_buffers_fifo_witness:
  "\<exists>r s'.
     eval (\<lambda>b t. b) (replicate 6120 7) init_model_state (0::nat) None [] []
       \<lparr> in_desire_pulse = [0, 0, 1, 0, 0, 0, 0, 0], in_traffic_convention = [1, 0],
         in_driving_style = [], in_nav_features = replicate 256 0 \<rparr> False = Inr r \<and>
     evals (\<lambda>b t. b) init_model_state
       (map (\<lambda>i. \<lparr> ec_engine_out = replicate 6120 (real i), ec_buf = (0::nat), ec_wbuf = None,
                    ec_transform = [], ec_transform_wide = [],
                    ec_inputs = \<lparr> in_desire_pulse = replicate 8 0,
                                   in_traffic_convention = [1, 0], in_driving_style = [],
                                   in_nav_features = replicate 256 0 \<rparr>,
                    ec_prepare_only = False \<rparr>) [1..<101]) = Inr s' \<and>
     block DESIRE_LEN 99 (desire_pulse (er_state r)) = [0, 0, 1, 0, 0, 0, 0, 0] \<and>
     block FEATURE_LEN 98 (feature_buffer (er_state r)) = replicate 128 7 \<and>
     block FEATURE_LEN 0 (feature_buffer (er_state r)) = replicate 128 0 \<and>
     feature_buffer s' = concat (tl (map (\<lambda>i. replicate 128 (real i)) [1..<101]))"
proof -
  let ?p = "\<lambda>(b::nat) (t::ndarray). b"
  let ?s = "init_model_state :: nat model_state"
  let ?inp = "\<lparr> in_desire_pulse = [0, 0, 1, 0, 0, 0, 0, 0], in_traffic_convention = [1, 0],
         in_driving_style = [], in_nav_features = replicate 256 0 \<rparr>"
  let ?call = "\<lambda>i. \<lparr> ec_engine_out = replicate 6120 (real i), ec_buf = (0::nat), ec_wbuf = None,
                    ec_transform = [], ec_transform_wide = [],
                    ec_inputs = \<lparr> in_desire_pulse = replicate 8 0,
                                   in_traffic_convention = [1, 0], in_driving_style = [],
                                   in_nav_features = replicate 256 0 \<rparr>,
                    ec_prepare_only = False \<rparr>"
  let ?cs = "map ?call [1..<101]"
  have "\<exists>r. eval ?p (replicate 6120 7) ?s 0 None [] [] ?inp False = Inr r"
    by (rule eval_returns [OF init_sizes_ok])
       (simp_all add: input_sizes_ok_def DESIRE_LEN_def TRAFFIC_CONVENTION_LEN_def
          NAV_FEATURE_LEN_def OUTPUT_SIZE_def FEATURE_LEN_def)
  then obtain r where r: "eval ?p (replicate 6120 7) ?s 0 None [] [] ?inp False = Inr r" ..
  have "\<exists>s'. evals ?p ?s ?cs = Inr s'"
    by (rule evals_returns [OF init_sizes_ok])
       (simp add: input_sizes_ok_def DESIRE_LEN_def TRAFFIC_CONVENTION_LEN_def
          NAV_FEATURE_LEN_def OUTPUT_SIZE_def FEATURE_LEN_def del: upt_rec_numeral)
  then obtain s' where s': "evals ?p ?s ?cs = Inr s'" ..
  have len: "length (in_desire_pulse ?inp) = DESIRE_LEN" by (simp add: DESIRE_LEN_def)
  have eo: "length (replicate 6120 (7::real)) = MODEL_OUTPUT_SIZE"
    by (simp add: MODEL_OUTPUT_SIZE_def)
  note fifo = history_buffers_fifo [OF r init_sizes_ok len eo]
  have cs: "length ?cs = HISTORY_BUFFER_LEN + 1 \<and>
            (\<forall>c\<in>set ?cs. \<not> ec_prepare_only c \<and> length (ec_engine_out c) = MODEL_OUTPUT_SIZE)"
    by (simp add: HISTORY_BUFFER_LEN_def MODEL_OUTPUT_SIZE_def del: upt_rec_numeral)
  from fifo have "block DESIRE_LEN HISTORY_BUFFER_LEN (desire_pulse (er_state r))
                    = [0, 0, 1, 0, 0, 0, 0, 0]"
    by (simp add: init_model_state_def DESIRE_LEN_def replicate_8 edge_pulse_values)
  then have 1: "block DESIRE_LEN 99 (desire_pulse (er_state r)) = [0, 0, 1, 0, 0, 0, 0, 0]"
    by (simp add: HISTORY_BUFFER_LEN_def)
  from fifo have "block FEATURE_LEN (HISTORY_BUFFER_LEN - 1) (feature_buffer (er_state r))
                    = take FEATURE_LEN (drop OUTPUT_SIZE (replicate 6120 7))"
    by simp
  then have 2: "block FEATURE_LEN 98 (feature_buffer (er_state r)) = replicate 128 7"
    by (simp add: HISTORY_BUFFER_LEN_def FEATURE_LEN_def OUTPUT_SIZE_def)
  from fifo have "\<forall>k<HISTORY_BUFFER_LEN - 1.
               block FEATURE_LEN k (feature_buffer (er_state r))
                 = block FEATURE_LEN (Suc k) (feature_buffer ?s)"
    by simp
  then have "block FEATURE_LEN 0 (feature_buffer (er_state r)) = block FEATURE_LEN 1 (feature_buffer ?s)"
    by (simp add: HISTORY_BUFFER_LEN_def)
  then have 3: "block FEATURE_LEN 0 (feature_buffer (er_state r)) = replicate 128 0"
    by (simp add: block_def init_model_state_def HISTORY_BUFFER_LEN_def FEATURE_LEN_def)
  from fifo s' cs have
    "feature_buffer s' =
       concat (map (\<lambda>c. take FEATURE_LEN (drop OUTPUT_SIZE (ec_engine_out c))) (tl ?cs))"
    by blast
  then have 4: "feature_buffer s' = concat (tl (map (\<lambda>i. replicate 128 (real i)) [1..<101]))"
    by (simp add: map_tl [symmetric] FEATURE_LEN_def OUTPUT_SIZE_def comp_def
          del: upt_rec_numeral map_tl)
  from r s' 1 2 3 4 show ?thesis by blast
qed

section \<open>What a pass through the loop body has done\<close>

lemma sync_extra_keeps:
  assumes "sync_extra st = (ev, st', ok)"
  shows "model st' = model st" and "frame_dropped_filter st' = frame_dropped_filter st"
    and "run_count st' = run_count st" and "vipc_client_main st' = vipc_client_main st"
    and "buf_main st' = buf_main st" and "last_vipc_frame_id st' = last_vipc_frame_id st"
    and "model_transform_main st' = model_transform_main st"
    and "model_transform_extra st' = model_transform_extra st"
    and "live_calib_seen st' = live_calib_seen st"
    and "main_wide_camera st' = main_wide_camera st"
    and "use_extra_client st' = use_extra_client st"
  using assms
  by (auto simp: sync_extra_def Let_def split: if_splits prod.splits)

lemma sync_extra_events:
  assumes "sync_extra st = (ev, st', ok)"
  shows "ev = (if ok then [] else [Log_error ''vipc_client_extra no frame''])"
  using assms
  by (auto simp: sync_extra_def Let_def split: if_splits prod.splits)

lemma sync_extra_False:
  "sync_extra st = (ev, st', False) \<longleftrightarrow>
     use_extra_client st \<and>
     snd (recv_extra_loop (cl_timestamp_sof (vipc_client_main st)) (vipc_client_extra st)) = None \<and>
     ev = [Log_error ''vipc_client_extra no frame''] \<and>
     st' = st\<lparr> vipc_client_extra :=
                  fst (recv_extra_loop (cl_timestamp_sof (vipc_client_main st)) (vipc_client_extra st)),
               buf_extra := None \<rparr>"
  by (auto simp: sync_extra_def Let_def split: if_splits prod.splits)

lemma track_dropped_frames_Inr:
  assumes "track_dropped_frames flt rc cur last_id = Inr (flt', rc', rep, ev)"
  shows "flt' = fst (filter_update flt (real_of_int (min (cur - last_id - 1) 10)))"
    and "rc' = rc + 1"
    and "vipc_dropped_frames rep = cur - last_id - 1"
    and "frames_dropped rep =
           (if rc < 10 then 0 else snd (filter_update flt (real_of_int (min (cur - last_id - 1) 10))))"
    and "1 + frames_dropped rep \<noteq> 0"
    and "frame_drop_ratio rep = frames_dropped rep / (1 + frames_dropped rep)"
    and "prepare_only rep = (cur - last_id - 1 > 0)"
    and "ev = Filter_update (real_of_int (min (cur - last_id - 1) 10)) #
              (if cur - last_id - 1 > 0 then [Log_error ''skipping model eval''] else [])"
  using assms
  by (auto simp: track_dropped_frames_def Let_def split: if_splits prod.splits)

lemma loop_inputs_ok: "input_sizes_ok (loop_inputs env)"
  by (simp add: input_sizes_ok_def loop_inputs_def TRAFFIC_CONVENTION_LEN_def Let_def)

lemma run_cycle_Inr:
  assumes "run_cycle T prepare st env b ev0 = Inr (oc, ev, st')"
  obtains flt rc rep ev1 r where
    "track_dropped_frames (frame_dropped_filter st) (run_count st)
       (cl_frame_id (vipc_client_main st)) (last_vipc_frame_id st) = Inr (flt, rc, rep, ev1)"
    "eval prepare (engine_output env) (model st) b (buf_extra st)
       (model_transform_main st') (model_transform_extra st') (loop_inputs env)
       (prepare_only rep) = Inr r"
    "oc = Completed rep (er_return r)"
    "ev = ev0 @ ev1 @ er_events r"
    "st' = st\<lparr> frame_id := sm_frameId env,
               model_transform_main :=
                 (case sm_liveCalibration env of None \<Rightarrow> model_transform_main st
                  | Some e \<Rightarrow> update_calibration T e (main_wide_camera st) False),
               model_transform_extra :=
                 (case sm_liveCalibration env of None \<Rightarrow> model_transform_extra st
                  | Some e \<Rightarrow> update_calibration T e True True),
               live_calib_seen := (live_calib_seen st \<or> sm_liveCalibration env \<noteq> None),
               model := er_state r,
               frame_dropped_filter := flt,
               run_count := rc,
               last_mt := perf_counter_mt1 env,
               last_vipc_frame_id := cl_frame_id (vipc_client_main st) \<rparr>"
  using assms unfolding run_cycle_def
  by (auto simp: Let_def split: sum.splits option.splits prod.splits)

lemma cycle_cases:
  assumes "cycle T prepare st env = Inr (oc, ev, st')"
  obtains (no_main) cm where
      "recv_main_loop (cl_timestamp_sof (vipc_client_extra st)) (vipc_client_main st) (buf_main st)
         = (cm, None)"
      "oc = Skipped" "ev = [Log_error ''vipc_client_main no frame'']"
      "st' = st\<lparr> vipc_client_main := cm, buf_main := None \<rparr>"
  | (no_extra) cm b where
      "recv_main_loop (cl_timestamp_sof (vipc_client_extra st)) (vipc_client_main st) (buf_main st)
         = (cm, Some b)"
      "sync_extra (st\<lparr> vipc_client_main := cm, buf_main := Some b \<rparr>) = (ev, st', False)"
      "oc = Skipped"
  | (ran) cm b ev0 st2 where
      "recv_main_loop (cl_timestamp_sof (vipc_client_extra st)) (vipc_client_main st) (buf_main st)
         = (cm, Some b)"
      "sync_extra (st\<lparr> vipc_client_main := cm, buf_main := Some b \<rparr>) = (ev0, st2, True)"
      "run_cycle T prepare st2 env b ev0 = Inr (oc, ev, st')"
proof -
  obtain cm bm where m:
    "recv_main_loop (cl_timestamp_sof (vipc_client_extra st)) (vipc_client_main st) (buf_main st)
       = (cm, bm)"
    by (cases "recv_main_loop (cl_timestamp_sof (vipc_client_extra st)) (vipc_client_main st)
                 (buf_main st)")
  show ?thesis
  proof (cases bm)
    case None
    with assms m show ?thesis
      by (intro no_main [of cm]) (simp_all add: cycle_def)
  next
    case (Some b)
    obtain ev0 st2 ok where x:
      "sync_extra (st\<lparr> vipc_client_main := cm, buf_main := Some b \<rparr>) = (ev0, st2, ok)"
      by (cases "sync_extra (st\<lparr> vipc_client_main := cm, buf_main := Some b \<rparr>)")
    show ?thesis
    proof (cases ok)
      case True
      with assms m Some x show ?thesis
        by (intro ran [of cm b ev0 st2]) (simp_all add: cycle_def)
    next
      case False
      with assms m Some x show ?thesis
        by (intro no_extra [of cm b]) (simp_all add: cycle_def)
    qed
  qed
qed

lemma eval_events:
  assumes "eval prepare eo s b wb tr trw inp po = Inr r"
  shows "er_events r =
           [Log_info ''Desire enqueued'', Frame_prepare b (concat tr),
            Set_input_buffer ''input_imgs'' (prepare b (concat tr)), Log_info ''Image added''] @
           (case wb of None \<Rightarrow> []
            | Some w \<Rightarrow> [Wide_frame_prepare w (concat trw),
                         Set_input_buffer ''big_input_imgs'' (prepare w (concat trw)),
                         Log_info ''Extra image added'']) @
           (if po then []
            else [Model_execute, Log_info ''Execution finished'', Log_info ''Features enqueued''])"
  using assms unfolding eval_def
  by (auto simp: Let_def split: sum.splits option.splits if_splits)

lemma cycle_Skipped:
  assumes "cycle T prepare st env = Inr (Skipped, ev, st')"
  shows "model st' = model st" and "frame_dropped_filter st' = frame_dropped_filter st"
    and "run_count st' = run_count st" and "model_transform_main st' = model_transform_main st"
    and "model_transform_extra st' = model_transform_extra st"
    and "live_calib_seen st' = live_calib_seen st"
    and "last_vipc_frame_id st' = last_vipc_frame_id st"
    and "\<forall>e\<in>set ev. \<exists>m. e = Log_error m"
proof -
  have "model st' = model st \<and> frame_dropped_filter st' = frame_dropped_filter st \<and>
        run_count st' = run_count st \<and> model_transform_main st' = model_transform_main st \<and>
        model_transform_extra st' = model_transform_extra st \<and>
        live_calib_seen st' = live_calib_seen st \<and>
        last_vipc_frame_id st' = last_vipc_frame_id st \<and> (\<forall>e\<in>set ev. \<exists>m. e = Log_error m)"
    using assms
  proof (cases rule: cycle_cases)
    case (no_main cm)
    then show ?thesis by simp
  next
    case (no_extra cm b)
    from no_extra(2) show ?thesis
      unfolding sync_extra_False by simp
  next
    case (ran cm b ev0 st2)
    from ran(3) show ?thesis by (elim run_cycle_Inr) simp
  qed
  then show "model st' = model st" and "frame_dropped_filter st' = frame_dropped_filter st"
    and "run_count st' = run_count st" and "model_transform_main st' = model_transform_main st"
    and "model_transform_extra st' = model_transform_extra st"
    and "live_calib_seen st' = live_calib_seen st"
    and "last_vipc_frame_id st' = last_vipc_frame_id st"
    and "\<forall>e\<in>set ev. \<exists>m. e = Log_error m"
    by simp_all
qed


section \<open>Cycles without a frame\<close>

text \<open>
  Claim C9. A cycle in which the main stream gives no frame, or in which a secondary
  stream is in use and gives no frame, is skipped and changes none of: the
  \<^verbatim>\<open>ModelState\<close> (the desire and feature histories and the previous desire among its
  fields), the drop-rate filter, the run count, the two calibration matrices, the
  calibration-seen flag and the last main frame id. It prepares no image and runs no
  inference: all it does is log an error.
\<close>

theorem no_frame_cycle_skipped:
  assumes "snd (recv_main_loop (cl_timestamp_sof (vipc_client_extra st)) (vipc_client_main st)
                  (buf_main st)) = None \<or>
           (use_extra_client st \<and>
            snd (recv_extra_loop
                   (cl_timestamp_sof
                      (fst (recv_main_loop (cl_timestamp_sof (vipc_client_extra st))
                              (vipc_client_main st) (buf_main st))))
                   (vipc_client_extra st)) = None)"
  shows "\<exists>ev st'.
           cycle T prepare st env = Inr (Skipped, ev, st') \<and>
           model st' = model st \<and>
           frame_dropped_filter st' = frame_dropped_filter st \<and>
           run_count st' = run_count st \<and>
           model_transform_main st' = model_transform_main st \<and>
           model_transform_extra st' = model_transform_extra st \<and>
           live_calib_seen st' = live_calib_seen st \<and>
           last_vipc_frame_id st' = last_vipc_frame_id st \<and>
           (\<forall>e\<in>set ev. \<exists>m. e = Log_error m)"
proof -
  obtain cm bm where m:
    "recv_main_loop (cl_timestamp_sof (vipc_client_extra st)) (vipc_client_main st) (buf_main st)
       = (cm, bm)"
    by (cases "recv_main_loop (cl_timestamp_sof (vipc_client_extra st)) (vipc_client_main st)
                 (buf_main st)")
  have "\<exists>ev st'. cycle T prepare st env = Inr (Skipped, ev, st')"
  proof (cases bm)
    case None
    with m show ?thesis by (simp add: cycle_def)
  next
    case (Some b)
    let ?st1 = "st\<lparr> vipc_client_main := cm, buf_main := Some b \<rparr>"
    from assms m Some have
      "use_extra_client ?st1 \<and>
       snd (recv_extra_loop (cl_timestamp_sof (vipc_client_main ?st1)) (vipc_client_extra ?st1)) = None"
      by simp
    then have "\<exists>ev st'. sync_extra ?st1 = (ev, st', False)"
      unfolding sync_extra_False by blast
    with m Some show ?thesis by (auto simp: cycle_def)
  qed
  then obtain ev st' where c: "cycle T prepare st env = Inr (Skipped, ev, st')" by blast
  from c cycle_Skipped [OF c] show ?thesis by blast
qed

lemma recv_main_loop_done:
  "\<not> cl_timestamp_sof c < extra_sof + 25000000 \<Longrightarrow> recv_main_loop extra_sof c b = (c, b)"
  by (subst recv_main_loop.simps) simp

lemma recv_main_loop_step:
  "cl_timestamp_sof c < extra_sof + 25000000 \<Longrightarrow>
   recv_main_loop extra_sof c b =
     (case recv c of (None, c') \<Rightarrow> (c', None)
      | (Some b', c') \<Rightarrow> recv_main_loop extra_sof c' (Some b'))"
  by (subst recv_main_loop.simps) simp

lemma recv_Nil: "cl_stream c = [] \<Longrightarrow> recv c = (None, c)"
  by (simp add: recv_def)

lemma recv_Cons_Some:
  "cl_stream c = Some (b, fid, sof) # rest \<Longrightarrow>
   recv c = (Some b, c\<lparr> cl_frame_id := fid, cl_timestamp_sof := sof, cl_stream := rest \<rparr>)"
  by (simp add: recv_def)

theorem no_frame_cycle_skipped_witness:
  "\<exists>ev st'.
     cycle sample_tables (\<lambda>b t. b)
       (init_loop_state True False [Some (7::nat, 1, 50000000)] [] :: (nat, nat) loop_state) (sample_env 0)
       = Inr (Skipped, ev, st') \<and>
     model st' = init_model_state \<and> run_count st' = 0 \<and> \<not> live_calib_seen st' \<and>
     last_vipc_frame_id st' = 0 \<and> frame_dropped_filter st' = FirstOrderFilter 0 10 (1 / 20)"
proof -
  let ?st = "init_loop_state True False [Some (7::nat, 1, 50000000)] [] :: (nat, nat) loop_state"
  let ?c = "\<lparr> cl_frame_id = 0, cl_timestamp_sof = 0, cl_stream = [Some (7::nat, 1, 50000000)] \<rparr>"
  let ?c' = "\<lparr> cl_frame_id = 1, cl_timestamp_sof = 50000000, cl_stream = ([] :: (nat \<times> int \<times> int) option list) \<rparr>"
  have m: "recv_main_loop 0 ?c None = (?c', Some 7)"
    by (simp add: recv_main_loop_step recv_Cons_Some recv_main_loop_done)
  have x: "recv_extra_loop 50000000 \<lparr> cl_frame_id = 0, cl_timestamp_sof = 0,
              cl_stream = ([] :: (nat \<times> int \<times> int) option list) \<rparr>
           = (\<lparr> cl_frame_id = 0, cl_timestamp_sof = 0, cl_stream = [] \<rparr>, None)"
    by (subst recv_extra_loop.simps) (simp add: recv_Nil)
  have "snd (recv_main_loop (cl_timestamp_sof (vipc_client_extra ?st)) (vipc_client_main ?st)
                  (buf_main ?st)) = None \<or>
           (use_extra_client ?st \<and>
            snd (recv_extra_loop
                   (cl_timestamp_sof
                      (fst (recv_main_loop (cl_timestamp_sof (vipc_client_extra ?st))
                              (vipc_client_main ?st) (buf_main ?st))))
                   (vipc_client_extra ?st)) = None)"
    by (simp add: init_loop_state_def m x)
  from no_frame_cycle_skipped [OF this, of sample_tables "\<lambda>b t. b" "sample_env 0"]
  obtain ev st' where
    "cycle sample_tables (\<lambda>b t. b) ?st (sample_env 0) = Inr (Skipped, ev, st')"
    "model st' = model ?st" "run_count st' = run_count ?st"
    "live_calib_seen st' = live_calib_seen ?st"
    "last_vipc_frame_id st' = last_vipc_frame_id ?st"
    "frame_dropped_filter st' = frame_dropped_filter ?st"
    by blast
  then show ?thesis
    by (intro exI [of _ ev] exI [of _ st']) (simp add: init_loop_state_def MODEL_FREQ_def)
qed

section \<open>Cycles that run to their end\<close>

lemma run_cycle_returns:
  fixes st :: "('buf, 'img) loop_state" and ev1 :: "('buf, 'img) event list"
  assumes sizes: "array_sizes_ok (model st)"
    and t: "track_dropped_frames (frame_dropped_filter st) (run_count st)
              (cl_frame_id (vipc_client_main st)) (last_vipc_frame_id st) = Inr (flt, rc, rep, ev1)"
    and eo: "prepare_only rep \<or> OUTPUT_SIZE + FEATURE_LEN \<le> length (engine_output env)"
  shows "\<exists>out ev st'. run_cycle T prepare st env b ev0 = Inr (Completed rep out, ev, st')"
proof -
  have r: "\<exists>r. eval prepare (engine_output env) (model st) b wb tr trw (loop_inputs env)
                 (prepare_only rep) = Inr r" for wb tr trw
    using sizes loop_inputs_ok eo by (rule eval_returns)
  show ?thesis
  proof (cases "sm_liveCalibration env")
    case None
    from r obtain r where
      "eval prepare (engine_output env) (model st) b (buf_extra st) (model_transform_main st)
         (model_transform_extra st) (loop_inputs env) (prepare_only rep) = Inr r" by blast
    with None t show ?thesis by (simp add: run_cycle_def Let_def)
  next
    case (Some e)
    from r obtain r where
      "eval prepare (engine_output env) (model st) b (buf_extra st)
         (update_calibration T e (main_wide_camera st) False)
         (update_calibration T e True True) (loop_inputs env) (prepare_only rep) = Inr r"
      by blast
    with Some t show ?thesis by (simp add: run_cycle_def Let_def)
  qed
qed

lemma cycle_ran:
  assumes "recv_main_loop (cl_timestamp_sof (vipc_client_extra st)) (vipc_client_main st)
             (buf_main st) = (cm, Some b)"
    and "sync_extra (st\<lparr> vipc_client_main := cm, buf_main := Some b \<rparr>) = (ev0, st2, True)"
  shows "cycle T prepare st env = run_cycle T prepare st2 env b ev0"
  using assms by (simp add: cycle_def)

lemma cycle_Completed:
  assumes "cycle T prepare st env = Inr (Completed rep out, ev, st')"
  obtains cm b st2 flt rc ev1 r where
    "recv_main_loop (cl_timestamp_sof (vipc_client_extra st)) (vipc_client_main st) (buf_main st)
       = (cm, Some b)"
    "sync_extra (st\<lparr> vipc_client_main := cm, buf_main := Some b \<rparr>) = ([], st2, True)"
    "track_dropped_frames (frame_dropped_filter st) (run_count st) (cl_frame_id cm)
       (last_vipc_frame_id st) = Inr (flt, rc, rep, ev1)"
    "eval prepare (engine_output env) (model st) b (buf_extra st')
       (model_transform_main st') (model_transform_extra st') (loop_inputs env)
       (prepare_only rep) = Inr r"
    "out = er_return r"
    "ev = ev1 @ er_events r"
    "st' = st2\<lparr> frame_id := sm_frameId env,
               model_transform_main :=
                 (case sm_liveCalibration env of None \<Rightarrow> model_transform_main st
                  | Some e \<Rightarrow> update_calibration T e (main_wide_camera st) False),
               model_transform_extra :=
                 (case sm_liveCalibration env of None \<Rightarrow> model_transform_extra st
                  | Some e \<Rightarrow> update_calibration T e True True),
               live_calib_seen := (live_calib_seen st \<or> sm_liveCalibration env \<noteq> None),
               model := er_state r,
               frame_dropped_filter := flt,
               run_count := rc,
               last_mt := perf_counter_mt1 env,
               last_vipc_frame_id := cl_frame_id cm \<rparr>"
    "vipc_client_main st' = cm" "buf_main st' = Some b"
  using assms
proof (cases rule: cycle_cases)
  case (ran cm b ev0 st2)
  from sync_extra_events [OF ran(2)] have ev0: "ev0 = []" by simp
  note st2 = sync_extra_keeps [OF ran(2), simplified]
  from ran(3) show ?thesis
  proof (rule run_cycle_Inr)
    fix flt rc rep' ev1 r
    assume a: "track_dropped_frames (frame_dropped_filter st2) (run_count st2)
                 (cl_frame_id (vipc_client_main st2)) (last_vipc_frame_id st2)
               = Inr (flt, rc, rep', ev1)"
      "eval prepare (engine_output env) (model st2) b (buf_extra st2)
         (model_transform_main st') (model_transform_extra st') (loop_inputs env)
         (prepare_only rep') = Inr r"
      "Completed rep out = Completed rep' (er_return r)"
      "ev = ev0 @ ev1 @ er_events r"
      "st' = st2\<lparr> frame_id := sm_frameId env,
               model_transform_main :=
                 (case sm_liveCalibration env of None \<Rightarrow> model_transform_main st2
                  | Some e \<Rightarrow> update_calibration T e (main_wide_camera st2) False),
               model_transform_extra :=
                 (case sm_liveCalibration env of None \<Rightarrow> model_transform_extra st2
                  | Some e \<Rightarrow> update_calibration T e True True),
               live_calib_seen := (live_calib_seen st2 \<or> sm_liveCalibration env \<noteq> None),
               model := er_state r,
               frame_dropped_filter := flt,
               run_count := rc,
               last_mt := perf_counter_mt1 env,
               last_vipc_frame_id := cl_frame_id (vipc_client_main st2) \<rparr>"
    from a(5) have be: "buf_extra st' = buf_extra st2" "vipc_client_main st' = cm"
      "buf_main st' = Some b" by (simp_all add: st2)
    show ?thesis
      using ran(1) ran(2) a be unfolding st2 ev0
      by (intro that [of cm b st2 flt rc ev1 r]) simp_all
  qed
qed simp_all

lemma cycle_events_no_desync:
  assumes "cycle T prepare st env = Inr (oc, ev, st')"
  shows "Log_error ''frames out of sync!'' \<notin> set ev"
  using assms
proof (cases rule: cycle_cases)
  case (no_main cm)
  then show ?thesis by simp
next
  case (no_extra cm b)
  from sync_extra_events [OF no_extra(2)] show ?thesis by simp
next
  case (ran cm b ev0 st2)
  from sync_extra_events [OF ran(2)] have ev0: "ev0 = []" by simp
  from ran(3) show ?thesis
  proof (rule run_cycle_Inr)
    fix flt rc rep ev1 r
    assume t: "track_dropped_frames (frame_dropped_filter st2) (run_count st2)
                 (cl_frame_id (vipc_client_main st2)) (last_vipc_frame_id st2)
               = Inr (flt, rc, rep, ev1)"
      and e: "eval prepare (engine_output env) (model st2) b (buf_extra st2)
         (model_transform_main st') (model_transform_extra st') (loop_inputs env)
         (prepare_only rep) = Inr r"
      and ev: "ev = ev0 @ ev1 @ er_events r"
    show ?thesis
      unfolding ev ev0 track_dropped_frames_Inr(8) [OF t] eval_events [OF e]
      by (simp split: option.split)
  qed
qed

lemma recv_extra_loop_caught_up:
  "cl_stream c = Some (b, fid, sof) # rest \<Longrightarrow> main_sof < sof + 25000000 \<Longrightarrow>
   recv_extra_loop main_sof c =
     (c\<lparr> cl_frame_id := fid, cl_timestamp_sof := sof, cl_stream := rest \<rparr>, Some b)"
  by (subst recv_extra_loop.simps) (simp add: recv_Cons_Some)

lemma recv_main_loop_one:
  "cl_timestamp_sof c < extra_sof + 25000000 \<Longrightarrow> cl_stream c = Some (b', fid, sof) # rest \<Longrightarrow>
   \<not> sof < extra_sof + 25000000 \<Longrightarrow>
   recv_main_loop extra_sof c b =
     (c\<lparr> cl_frame_id := fid, cl_timestamp_sof := sof, cl_stream := rest \<rparr>, Some b')"
  by (simp add: recv_main_loop_step recv_Cons_Some recv_main_loop_done)

section \<open>The desynchronisation warning\<close>

text \<open>
  Claim C2. With a secondary stream in use and both final frames received, the warning
  about frames out of sync is logged exactly when the final start-of-frame timestamps of
  the two streams differ by more than 10 ms, and the cycle goes on either way. The test
  of line 181 subtracts the main timestamp from itself, so no cycle logs the warning
  (\<open>cycle_events_no_desync\<close>). Here the first cycle receives a main frame stamped 50 ms
  and an extra frame stamped 30 ms: it runs to its end, 20 ms apart, without the warning.
\<close>

theorem desync_not_reported:
  "\<exists>rep out ev st'.
     cycle sample_tables (\<lambda>b t. b)
       (init_loop_state True False [Some (7::nat, 1, 50000000)] [Some (8, 1, 30000000)]
          :: (nat, nat) loop_state) (sample_env 0)
       = Inr (Completed rep out, ev, st') \<and>
     cl_timestamp_sof (vipc_client_main st') = 50000000 \<and>
     cl_timestamp_sof (vipc_client_extra st') = 30000000 \<and>
     Log_error ''frames out of sync!'' \<notin> set ev"
proof -
  let ?st = "init_loop_state True False [Some (7::nat, 1, 50000000)] [Some (8, 1, 30000000)]
               :: (nat, nat) loop_state"
  let ?cm = "\<lparr> cl_frame_id = 1, cl_timestamp_sof = 50000000,
               cl_stream = ([] :: (nat \<times> int \<times> int) option list) \<rparr>"
  let ?ce = "\<lparr> cl_frame_id = 1, cl_timestamp_sof = 30000000,
               cl_stream = ([] :: (nat \<times> int \<times> int) option list) \<rparr>"
  let ?st1 = "?st\<lparr> vipc_client_main := ?cm, buf_main := Some 7 \<rparr>"
  let ?st2 = "?st1\<lparr> vipc_client_extra := ?ce, buf_extra := Some 8 \<rparr>"
  have m: "recv_main_loop (cl_timestamp_sof (vipc_client_extra ?st)) (vipc_client_main ?st)
             (buf_main ?st) = (?cm, Some 7)"
    by (simp add: init_loop_state_def recv_main_loop_one)
  have x: "sync_extra ?st1 = ([], ?st2, True)"
    by (simp add: sync_extra_def init_loop_state_def recv_extra_loop_caught_up)
  have t: "track_dropped_frames (frame_dropped_filter ?st2) (run_count ?st2)
             (cl_frame_id (vipc_client_main ?st2)) (last_vipc_frame_id ?st2)
           = Inr (FirstOrderFilter 0 10 (1 / 20), 1,
                  \<lparr> vipc_dropped_frames = 0, frames_dropped = 0, frame_drop_ratio = 0,
                    prepare_only = False \<rparr>,
                  [Filter_update 0 :: (nat, nat) event])"
    by (simp add: init_loop_state_def track_dropped_frames_def filter_update_def
          FirstOrderFilter_def MODEL_FREQ_def)
  have "\<exists>out ev st'. run_cycle sample_tables (\<lambda>b t. b) ?st2 (sample_env 0) 7 []
          = Inr (Completed \<lparr> vipc_dropped_frames = 0, frames_dropped = 0, frame_drop_ratio = 0,
                    prepare_only = False \<rparr> out, ev, st')"
    by (rule run_cycle_returns [OF _ t])
       (simp_all add: init_loop_state_def init_sizes_ok sample_env_def MODEL_OUTPUT_SIZE_def
          OUTPUT_SIZE_def FEATURE_LEN_def)
  then obtain rep out ev st' where
    c: "cycle sample_tables (\<lambda>b t. b) ?st (sample_env 0) = Inr (Completed rep out, ev, st')"
    unfolding cycle_ran [OF m x, symmetric] by blast
  have "cl_timestamp_sof (vipc_client_main st') = 50000000 \<and>
        cl_timestamp_sof (vipc_client_extra st') = 30000000"
    using c
  proof (rule cycle_Completed)
    fix cm b st2
    assume "recv_main_loop (cl_timestamp_sof (vipc_client_extra ?st)) (vipc_client_main ?st)
             (buf_main ?st) = (cm, Some b)"
    with m have cm: "cm = ?cm" "b = 7" by simp_all
    assume "sync_extra (?st\<lparr> vipc_client_main := cm, buf_main := Some b \<rparr>) = ([], st2, True)"
    with x have st2: "st2 = ?st2" unfolding cm by simp
    fix flt rc r
    assume "st' = st2\<lparr> frame_id := sm_frameId (sample_env 0),
               model_transform_main :=
                 (case sm_liveCalibration (sample_env 0) of None \<Rightarrow> model_transform_main ?st
                  | Some e \<Rightarrow> update_calibration sample_tables e (main_wide_camera ?st) False),
               model_transform_extra :=
                 (case sm_liveCalibration (sample_env 0) of None \<Rightarrow> model_transform_extra ?st
                  | Some e \<Rightarrow> update_calibration sample_tables e True True),
               live_calib_seen := (live_calib_seen ?st \<or> sm_liveCalibration (sample_env 0) \<noteq> None),
               model := er_state r,
               frame_dropped_filter := flt,
               run_count := rc,
               last_mt := perf_counter_mt1 (sample_env 0),
               last_vipc_frame_id := cl_frame_id cm \<rparr>"
    then show ?thesis unfolding st2 by simp
  qed
  with c cycle_events_no_desync [OF c] show ?thesis by blast
qed

lemma filter_update_value: "snd (filter_update f u) = filt_x (fst (filter_update f u))"
  by (simp add: filter_update_def Let_def)

lemma sync_extra_single:
  "\<not> use_extra_client st \<Longrightarrow> sync_extra st = ([], st\<lparr> buf_extra := buf_main st \<rparr>, True)"
  by (simp add: sync_extra_def)

lemma cycle_Completed_facts:
  assumes c: "cycle T prepare st env = Inr (Completed rep out, ev, st')"
  shows "vipc_dropped_frames rep = cl_frame_id (vipc_client_main st') - last_vipc_frame_id st - 1"
    and "frame_dropped_filter st' =
           fst (filter_update (frame_dropped_filter st)
                  (real_of_int (min (vipc_dropped_frames rep) 10)))"
    and "run_count st' = run_count st + 1"
    and "frames_dropped rep = (if run_count st < 10 then 0 else filt_x (frame_dropped_filter st'))"
    and "1 + frames_dropped rep \<noteq> 0"
    and "frame_drop_ratio rep = frames_dropped rep / (1 + frames_dropped rep)"
    and "prepare_only rep = (vipc_dropped_frames rep > 0)"
    and "last_vipc_frame_id st' = cl_frame_id (vipc_client_main st')"
    and "live_calib_seen st' = (live_calib_seen st \<or> sm_liveCalibration env \<noteq> None)"
    and "model_transform_main st' =
           (case sm_liveCalibration env of None \<Rightarrow> model_transform_main st
            | Some e \<Rightarrow> update_calibration T e (main_wide_camera st) False)"
    and "model_transform_extra st' =
           (case sm_liveCalibration env of None \<Rightarrow> model_transform_extra st
            | Some e \<Rightarrow> update_calibration T e True True)"
    and "\<exists>b r. buf_main st' = Some b \<and>
           eval prepare (engine_output env) (model st) b (buf_extra st')
             (model_transform_main st') (model_transform_extra st') (loop_inputs env)
             (prepare_only rep) = Inr r \<and>
           model st' = er_state r \<and> out = er_return r \<and>
           ev = Filter_update (real_of_int (min (vipc_dropped_frames rep) 10)) #
                (if vipc_dropped_frames rep > 0 then [Log_error ''skipping model eval''] else []) @
                er_events r"
    and "\<not> use_extra_client st \<Longrightarrow> buf_extra st' = buf_main st'"
proof -
  from c obtain cm b st2 flt rc ev1 r where
    x: "sync_extra (st\<lparr> vipc_client_main := cm, buf_main := Some b \<rparr>) = ([], st2, True)"
    and t: "track_dropped_frames (frame_dropped_filter st) (run_count st) (cl_frame_id cm)
              (last_vipc_frame_id st) = Inr (flt, rc, rep, ev1)"
    and e: "eval prepare (engine_output env) (model st) b (buf_extra st')
              (model_transform_main st') (model_transform_extra st') (loop_inputs env)
              (prepare_only rep) = Inr r"
    and o: "out = er_return r" "ev = ev1 @ er_events r"
    and s: "st' = st2\<lparr> frame_id := sm_frameId env,
               model_transform_main :=
                 (case sm_liveCalibration env of None \<Rightarrow> model_transform_main st
                  | Some e \<Rightarrow> update_calibration T e (main_wide_camera st) False),
               model_transform_extra :=
                 (case sm_liveCalibration env of None \<Rightarrow> model_transform_extra st
                  | Some e \<Rightarrow> update_calibration T e True True),
               live_calib_seen := (live_calib_seen st \<or> sm_liveCalibration env \<noteq> None),
               model := er_state r,
               frame_dropped_filter := flt,
               run_count := rc,
               last_mt := perf_counter_mt1 env,
               last_vipc_frame_id := cl_frame_id cm \<rparr>"
    and m: "vipc_client_main st' = cm" "buf_main st' = Some b"
    by (rule cycle_Completed)
  note tf = track_dropped_frames_Inr [OF t]
  have f: "model st' = er_state r" "frame_dropped_filter st' = flt" "run_count st' = rc"
    "last_vipc_frame_id st' = cl_frame_id cm"
    "live_calib_seen st' = (live_calib_seen st \<or> sm_liveCalibration env \<noteq> None)"
    "model_transform_main st' =
           (case sm_liveCalibration env of None \<Rightarrow> model_transform_main st
            | Some e \<Rightarrow> update_calibration T e (main_wide_camera st) False)"
    "model_transform_extra st' =
           (case sm_liveCalibration env of None \<Rightarrow> model_transform_extra st
            | Some e \<Rightarrow> update_calibration T e True True)"
    "buf_extra st' = buf_extra st2"
    unfolding s by simp_all
  show "vipc_dropped_frames rep = cl_frame_id (vipc_client_main st') - last_vipc_frame_id st - 1"
    using tf(3) m by simp
  then have d: "cl_frame_id cm - last_vipc_frame_id st - 1 = vipc_dropped_frames rep"
    using m by simp
  show "frame_dropped_filter st' =
           fst (filter_update (frame_dropped_filter st)
                  (real_of_int (min (vipc_dropped_frames rep) 10)))"
    using tf(1) f(2) d by simp
  show "run_count st' = run_count st + 1" using tf(2) f(3) by simp
  show "frames_dropped rep = (if run_count st < 10 then 0 else filt_x (frame_dropped_filter st'))"
    using tf(4) tf(1) f(2) by (simp add: filter_update_value)
  show "1 + frames_dropped rep \<noteq> 0" by (rule tf(5))
  show "frame_drop_ratio rep = frames_dropped rep / (1 + frames_dropped rep)" by (rule tf(6))
  show "prepare_only rep = (vipc_dropped_frames rep > 0)" using tf(7) d by simp
  show "last_vipc_frame_id st' = cl_frame_id (vipc_client_main st')" using f(4) m by simp
  show "live_calib_seen st' = (live_calib_seen st \<or> sm_liveCalibration env \<noteq> None)"
    by (rule f(5))
  show "model_transform_main st' =
           (case sm_liveCalibration env of None \<Rightarrow> model_transform_main st
            | Some e \<Rightarrow> update_calibration T e (main_wide_camera st) False)" by (rule f(6))
  show "model_transform_extra st' =
           (case sm_liveCalibration env of None \<Rightarrow> model_transform_extra st
            | Some e \<Rightarrow> update_calibration T e True True)" by (rule f(7))
  show "\<exists>b r. buf_main st' = Some b \<and>
           eval prepare (engine_output env) (model st) b (buf_extra st')
             (model_transform_main st') (model_transform_extra st') (loop_inputs env)
             (prepare_only rep) = Inr r \<and>
           model st' = er_state r \<and> out = er_return r \<and>
           ev = Filter_update (real_of_int (min (vipc_dropped_frames rep) 10)) #
                (if vipc_dropped_frames rep > 0 then [Log_error ''skipping model eval''] else []) @
                er_events r"
    using m(2) e f(1) o tf(8) d by (intro exI [of _ b] exI [of _ r]) simp
  show "buf_extra st' = buf_main st'" if "\<not> use_extra_client st"
    using x that m(2) f(8) by (auto simp: sync_extra_single)
qed

lemma cycle_completes:
  fixes st :: "('buf, 'img) loop_state" and ev1 :: "('buf, 'img) event list"
  assumes m: "recv_main_loop (cl_timestamp_sof (vipc_client_extra st)) (vipc_client_main st)
                (buf_main st) = (cm, Some b)"
    and x: "sync_extra (st\<lparr> vipc_client_main := cm, buf_main := Some b \<rparr>) = ([], st2, True)"
    and sizes: "array_sizes_ok (model st)"
    and t: "track_dropped_frames (frame_dropped_filter st) (run_count st) (cl_frame_id cm)
              (last_vipc_frame_id st) = Inr (flt, rc, rep, ev1)"
    and eo: "prepare_only rep \<or> OUTPUT_SIZE + FEATURE_LEN \<le> length (engine_output env)"
  shows "\<exists>out ev st'.
           cycle T prepare st env = Inr (Completed rep out, ev, st') \<and>
           vipc_client_main st' = cm \<and> buf_main st' = Some b \<and>
           vipc_client_extra st' = vipc_client_extra st2 \<and> buf_extra st' = buf_extra st2 \<and>
           use_extra_client st' = use_extra_client st \<and> array_sizes_ok (model st')"
proof -
  note k = sync_extra_keeps [OF x, simplified]
  have "\<exists>out ev st'. run_cycle T prepare st2 env b [] = Inr (Completed rep out, ev, st')"
    using sizes t eo by (intro run_cycle_returns [where flt = flt and rc = rc and ?ev1.0 = ev1])
      (simp_all add: k)
  then obtain out ev st' where
    r: "run_cycle T prepare st2 env b [] = Inr (Completed rep out, ev, st')" by blast
  then have c: "cycle T prepare st env = Inr (Completed rep out, ev, st')"
    by (simp add: cycle_ran [OF m x])
  from r have "vipc_client_main st' = cm \<and> buf_main st' = Some b \<and>
           vipc_client_extra st' = vipc_client_extra st2 \<and> buf_extra st' = buf_extra st2 \<and>
           use_extra_client st' = use_extra_client st"
    by (elim run_cycle_Inr) (simp add: k)
  moreover from cycle_Completed_facts(12) [OF c] sizes have "array_sizes_ok (model st')"
    by (auto dest: eval_keeps_sizes)
  ultimately show ?thesis using c by blast
qed

lemma single_camera_fresh_cycle:
  fixes st :: "('buf, 'img) loop_state" and ev1 :: "('buf, 'img) event list"
  assumes "\<not> use_extra_client st"
    and "cl_timestamp_sof (vipc_client_main st) < cl_timestamp_sof (vipc_client_extra st) + 25000000"
    and "cl_stream (vipc_client_main st) = Some (b, fid, sof) # rest"
    and "\<not> sof < cl_timestamp_sof (vipc_client_extra st) + 25000000"
    and "array_sizes_ok (model st)"
    and "track_dropped_frames (frame_dropped_filter st) (run_count st) fid
           (last_vipc_frame_id st) = Inr (flt, rc, rep, ev1)"
    and "prepare_only rep \<or> OUTPUT_SIZE + FEATURE_LEN \<le> length (engine_output env)"
  shows "\<exists>out ev st'.
           cycle T prepare st env = Inr (Completed rep out, ev, st') \<and>
           vipc_client_main st' =
             (vipc_client_main st)\<lparr> cl_frame_id := fid, cl_timestamp_sof := sof, cl_stream := rest \<rparr> \<and>
           buf_main st' = Some b \<and> vipc_client_extra st' = vipc_client_extra st \<and>
           buf_extra st' = Some b \<and> \<not> use_extra_client st' \<and> array_sizes_ok (model st')"
proof -
  let ?cm = "(vipc_client_main st)\<lparr> cl_frame_id := fid, cl_timestamp_sof := sof, cl_stream := rest \<rparr>"
  let ?st1 = "st\<lparr> vipc_client_main := ?cm, buf_main := Some b \<rparr>"
  have m: "recv_main_loop (cl_timestamp_sof (vipc_client_extra st)) (vipc_client_main st)
             (buf_main st) = (?cm, Some b)"
    using assms(2,3,4) by (rule recv_main_loop_one)
  have x: "sync_extra ?st1 = ([], ?st1\<lparr> buf_extra := buf_main ?st1 \<rparr>, True)"
    using assms(1) by (intro sync_extra_single) simp
  from cycle_completes [OF m x assms(5) _ assms(7), of flt rc ev1 T prepare] assms(1,6)
  show ?thesis by simp
qed

lemma single_camera_stale_cycle:
  fixes st :: "('buf, 'img) loop_state" and ev1 :: "('buf, 'img) event list"
  assumes "\<not> use_extra_client st"
    and "\<not> cl_timestamp_sof (vipc_client_main st) < cl_timestamp_sof (vipc_client_extra st) + 25000000"
    and "buf_main st = Some b"
    and "array_sizes_ok (model st)"
    and "track_dropped_frames (frame_dropped_filter st) (run_count st)
           (cl_frame_id (vipc_client_main st)) (last_vipc_frame_id st) = Inr (flt, rc, rep, ev1)"
    and "prepare_only rep \<or> OUTPUT_SIZE + FEATURE_LEN \<le> length (engine_output env)"
  shows "\<exists>out ev st'.
           cycle T prepare st env = Inr (Completed rep out, ev, st') \<and>
           vipc_client_main st' = vipc_client_main st \<and>
           buf_main st' = Some b \<and> vipc_client_extra st' = vipc_client_extra st \<and>
           buf_extra st' = Some b \<and> \<not> use_extra_client st' \<and> array_sizes_ok (model st')"
proof -
  let ?st1 = "st\<lparr> vipc_client_main := vipc_client_main st, buf_main := Some b \<rparr>"
  have m: "recv_main_loop (cl_timestamp_sof (vipc_client_extra st)) (vipc_client_main st)
             (buf_main st) = (vipc_client_main st, Some b)"
    using assms(2,3) by (simp add: recv_main_loop_done)
  have x: "sync_extra ?st1 = ([], ?st1\<lparr> buf_extra := buf_main ?st1 \<rparr>, True)"
    using assms(1) by (intro sync_extra_single) simp
  from cycle_completes [OF m x assms(4) assms(5) assms(6), of T prepare] assms(1)
  show ?thesis by simp
qed

section \<open>Cycles after dropped frames\<close>

text \<open>
  Claim C5. In a cycle whose dropped-frame count is greater than zero the engine is not
  run and \<^verbatim>\<open>eval\<close> returns no output, the feature history is as it was before the
  cycle, and the main image is still prepared and bound, as is the wide image when a wide
  frame is present.
\<close>

theorem prepare_only_cycle:
  assumes c: "cycle T prepare st env = Inr (Completed rep out, ev, st')"
    and d: "vipc_dropped_frames rep > 0"
  shows "prepare_only rep \<and> Model_execute \<notin> set ev \<and> out = None \<and>
         feature_buffer (model st') = feature_buffer (model st) \<and>
         (\<exists>b. buf_main st' = Some b \<and>
              Frame_prepare b (concat (model_transform_main st')) \<in> set ev \<and>
              Set_input_buffer ''input_imgs'' (prepare b (concat (model_transform_main st'))) \<in> set ev \<and>
              input_imgs (model st') = Some (prepare b (concat (model_transform_main st')))) \<and>
         (\<forall>w. buf_extra st' = Some w \<longrightarrow>
              Wide_frame_prepare w (concat (model_transform_extra st')) \<in> set ev \<and>
              Set_input_buffer ''big_input_imgs'' (prepare w (concat (model_transform_extra st')))
                \<in> set ev \<and>
              big_input_imgs (model st') = Some (prepare w (concat (model_transform_extra st'))))"
proof -
  from cycle_Completed_facts(7) [OF c] d have po: "prepare_only rep" by simp
  from cycle_Completed_facts(12) [OF c] po d obtain b r where
    b: "buf_main st' = Some b"
    and e: "eval prepare (engine_output env) (model st) b (buf_extra st')
              (model_transform_main st') (model_transform_extra st') (loop_inputs env) True = Inr r"
    and s: "model st' = er_state r" "out = er_return r"
    and ev: "ev = Filter_update (real_of_int (min (vipc_dropped_frames rep) 10)) #
                  Log_error ''skipping model eval'' # er_events r"
    by auto
  note evs = eval_events [OF e]
  from e have st: "feature_buffer (er_state r) = feature_buffer (model st)" "er_return r = None"
    "input_imgs (er_state r) = Some (prepare b (concat (model_transform_main st')))"
    "big_input_imgs (er_state r) =
       (case buf_extra st' of None \<Rightarrow> big_input_imgs (model st)
        | Some w \<Rightarrow> Some (prepare w (concat (model_transform_extra st'))))"
    by (elim eval_InrE; simp)+
  have "Model_execute \<notin> set ev"
    unfolding ev evs by (simp split: option.split)
  moreover have "Frame_prepare b (concat (model_transform_main st')) \<in> set ev"
    "Set_input_buffer ''input_imgs'' (prepare b (concat (model_transform_main st'))) \<in> set ev"
    unfolding ev evs by simp_all
  moreover have "Wide_frame_prepare w (concat (model_transform_extra st')) \<in> set ev \<and>
      Set_input_buffer ''big_input_imgs'' (prepare w (concat (model_transform_extra st'))) \<in> set ev \<and>
      big_input_imgs (model st') = Some (prepare w (concat (model_transform_extra st')))"
    if "buf_extra st' = Some w" for w
    unfolding ev evs s st using that by simp
  ultimately show ?thesis
    using po b s st by simp
qed

lemma first_cycle_single_camera:
  assumes "\<not> sof < 25000000"
    and "fid - 1 > 0 \<or> OUTPUT_SIZE + FEATURE_LEN \<le> length (engine_output env)"
  shows "\<exists>out ev st'.
           cycle T prepare
             (init_loop_state False mw (Some (b, fid, sof) # rest) xs :: ('buf, 'img) loop_state) env
             = Inr (Completed \<lparr> vipc_dropped_frames = fid - 1, frames_dropped = 0,
                                frame_drop_ratio = 0, prepare_only = (fid - 1 > 0) \<rparr> out, ev, st') \<and>
           vipc_client_main st' = \<lparr> cl_frame_id = fid, cl_timestamp_sof = sof, cl_stream = rest \<rparr> \<and>
           buf_main st' = Some b \<and>
           vipc_client_extra st' = \<lparr> cl_frame_id = 0, cl_timestamp_sof = 0, cl_stream = xs \<rparr> \<and>
           buf_extra st' = Some b \<and> \<not> use_extra_client st' \<and> array_sizes_ok (model st')"
proof -
  let ?st = "init_loop_state False mw (Some (b, fid, sof) # rest) xs :: ('buf, 'img) loop_state"
  let ?rep = "\<lparr> vipc_dropped_frames = fid - 1, frames_dropped = 0,
                 frame_drop_ratio = 0, prepare_only = (fid - 1 > 0) \<rparr>"
  have t: "track_dropped_frames (frame_dropped_filter ?st) (run_count ?st) fid
             (last_vipc_frame_id ?st)
           = Inr (fst (filter_update (frame_dropped_filter ?st) (real_of_int (min (fid - 1) 10))),
                  1, ?rep,
                  (Filter_update (real_of_int (min (fid - 1) 10)) #
                     (if fid - 1 > 0 then [Log_error ''skipping model eval''] else [])
                   :: ('buf, 'img) event list))"
    by (simp add: init_loop_state_def track_dropped_frames_def Let_def split: prod.split)
  have "\<exists>out ev st'.
           cycle T prepare ?st env = Inr (Completed ?rep out, ev, st') \<and>
           vipc_client_main st' =
             (vipc_client_main ?st)\<lparr> cl_frame_id := fid, cl_timestamp_sof := sof, cl_stream := rest \<rparr> \<and>
           buf_main st' = Some b \<and> vipc_client_extra st' = vipc_client_extra ?st \<and>
           buf_extra st' = Some b \<and> \<not> use_extra_client st' \<and> array_sizes_ok (model st')"
    using assms
    by (intro single_camera_fresh_cycle [OF _ _ _ _ _ t])
       (simp_all add: init_loop_state_def init_sizes_ok)
  then show ?thesis by (simp add: init_loop_state_def)
qed

theorem prepare_only_cycle_witness:
  "\<exists>rep out ev st'.
     cycle sample_tables (\<lambda>b t. b)
       (init_loop_state False True [Some (7::nat, 5, 50000000)] [] :: (nat, nat) loop_state)
       (sample_env 0)
       = Inr (Completed rep out, ev, st') \<and>
     vipc_dropped_frames rep = 4 \<and> out = None \<and> Model_execute \<notin> set ev \<and>
     Frame_prepare 7 (concat (replicate 3 (replicate 3 0))) \<in> set ev \<and>
     Wide_frame_prepare 7 (concat (replicate 3 (replicate 3 0))) \<in> set ev \<and>
     input_imgs (model st') = Some 7 \<and>
     feature_buffer (model st') = replicate 12672 0"
proof -
  let ?st = "init_loop_state False True [Some (7::nat, 5, 50000000)] [] :: (nat, nat) loop_state"
  from first_cycle_single_camera [of 50000000 5 "sample_env 0" sample_tables "\<lambda>b t. b" True 7 "[]" "[]"]
  obtain out ev st' where
    c: "cycle sample_tables (\<lambda>b t. b) ?st (sample_env 0)
          = Inr (Completed \<lparr> vipc_dropped_frames = 4, frames_dropped = 0,
                               frame_drop_ratio = 0, prepare_only = True \<rparr> out, ev, st')"
    and b: "buf_main st' = Some 7" "buf_extra st' = Some 7"
    by auto
  have d: "vipc_dropped_frames \<lparr> vipc_dropped_frames = 4, frames_dropped = 0,
                               frame_drop_ratio = 0, prepare_only = True \<rparr> > 0" by simp
  have tm: "model_transform_main st' = replicate 3 (replicate 3 0)"
    "model_transform_extra st' = replicate 3 (replicate 3 0)"
    using cycle_Completed_facts(10,11) [OF c] by (simp_all add: sample_env_def init_loop_state_def)
  from prepare_only_cycle [OF c d] b tm
  have "out = None \<and> Model_execute \<notin> set ev \<and>
     Frame_prepare 7 (concat (replicate 3 (replicate 3 0))) \<in> set ev \<and>
     Wide_frame_prepare 7 (concat (replicate 3 (replicate 3 0))) \<in> set ev \<and>
     input_imgs (model st') = Some 7 \<and>
     feature_buffer (model st') = replicate 12672 0"
    by (simp add: init_loop_state_def init_model_state_def HISTORY_BUFFER_LEN_def FEATURE_LEN_def)
  moreover have "vipc_dropped_frames \<lparr> vipc_dropped_frames = 4, frames_dropped = 0,
                               frame_drop_ratio = 0, prepare_only = True \<rparr> = 4" by simp
  ultimately show ?thesis using c by blast
qed

section \<open>Single-camera mode after the first frame\<close>

lemma stale_step:
  fixes st :: "('buf, 'img) loop_state"
  assumes inv: "stale_single_camera st"
    and eo: "OUTPUT_SIZE + FEATURE_LEN \<le> length (engine_output env)"
  shows "\<exists>rep out ev st'.
           cycle T prepare st env = Inr (Completed rep out, ev, st') \<and>
           vipc_dropped_frames rep = - 1 \<and>
           (10 \<le> run_count st \<longrightarrow> frame_drop_ratio rep < 0) \<and>
           stale_single_camera st' \<and> run_count st' = run_count st + 1 \<and>
           buf_main st' = buf_main st"
proof -
  let ?f = "frame_dropped_filter st"
  let ?x' = "filt_x ?f + (- 1 - filt_x ?f) * (1 / 20 / 10)"
  let ?fd = "if run_count st < 10 then 0 else ?x'"
  let ?rep = "\<lparr> vipc_dropped_frames = - 1, frames_dropped = ?fd,
                 frame_drop_ratio = ?fd / (1 + ?fd), prepare_only = False \<rparr>"
  from inv have x: "- 1 < filt_x ?f" "filt_x ?f \<le> 0"
    and p: "filt_rc ?f = 10" "filt_dt ?f = 1 / 20"
    and u: "\<not> use_extra_client st"
    and a: "\<not> cl_timestamp_sof (vipc_client_main st) < cl_timestamp_sof (vipc_client_extra st) + 25000000"
    and s: "array_sizes_ok (model st)"
    and i: "cl_frame_id (vipc_client_main st) = last_vipc_frame_id st"
    by (simp_all add: stale_single_camera_def)
  from inv obtain b where b: "buf_main st = Some b"
    by (auto simp: stale_single_camera_def)
  have x': "- 1 < ?x'" "?x' < 0" using x by (simp_all add: field_simps)
  then have nz: "1 + ?fd \<noteq> 0" by simp
  have t: "track_dropped_frames ?f (run_count st) (cl_frame_id (vipc_client_main st))
             (last_vipc_frame_id st)
           = Inr (?f\<lparr> filt_x := ?x' \<rparr>, run_count st + 1, ?rep,
                  ([Filter_update (- 1)] :: ('buf, 'img) event list))"
  proof -
    have "1 + (filt_x ?f + (- 1 - filt_x ?f) / 200) \<noteq> 0"
      using x by argo
    then show ?thesis
      unfolding track_dropped_frames_def filter_update_def i p
      by (auto simp: Let_def)
  qed
  have "prepare_only ?rep \<or> OUTPUT_SIZE + FEATURE_LEN \<le> length (engine_output env)"
    using eo by simp
  from single_camera_stale_cycle [OF u a b s t this, of T prepare]
  obtain out ev st' where
    c: "cycle T prepare st env = Inr (Completed ?rep out, ev, st')"
    and k: "vipc_client_main st' = vipc_client_main st" "buf_main st' = Some b"
      "vipc_client_extra st' = vipc_client_extra st" "\<not> use_extra_client st'"
      "array_sizes_ok (model st')"
    by blast
  note f = cycle_Completed_facts [OF c]
  have flt: "frame_dropped_filter st' = ?f\<lparr> filt_x := ?x' \<rparr>"
    using f(2) by (simp add: filter_update_def Let_def p)
  have "stale_single_camera st'"
    unfolding stale_single_camera_def using k a f(8) flt p x' by simp
  moreover have "frame_drop_ratio ?rep < 0" if "10 \<le> run_count st"
  proof -
    from that have "?fd = ?x'" by simp
    moreover have "?x' / (1 + ?x') < 0"
      using x' by (simp add: divide_neg_pos)
    ultimately show ?thesis by simp
  qed
  moreover have "run_count st' = run_count st + 1" by (rule f(3))
  moreover have "buf_main st' = buf_main st" using k(2) b by simp
  ultimately show ?thesis using c
    by (intro exI [of _ ?rep] exI [of _ out] exI [of _ ev] exI [of _ st']) simp
qed

lemma stale_run:
  fixes st :: "('buf, 'img) loop_state"
  assumes "stale_single_camera st"
    and "\<forall>env\<in>set envs. OUTPUT_SIZE + FEATURE_LEN \<le> length (engine_output env)"
    and "envs \<noteq> []"
  shows "\<exists>ocs st' rep out.
           run T prepare st envs = Inr (ocs, st') \<and> ocs \<noteq> [] \<and>
           last ocs = Completed rep out \<and> vipc_dropped_frames rep = - 1 \<and>
           (10 \<le> run_count st + length envs - 1 \<longrightarrow> frame_drop_ratio rep < 0) \<and>
           stale_single_camera st'"
  using assms
proof (induction envs arbitrary: st)
  case Nil
  then show ?case by simp
next
  case (Cons env envs)
  from Cons.prems(2) have eo: "OUTPUT_SIZE + FEATURE_LEN \<le> length (engine_output env)" by simp
  from stale_step [OF Cons.prems(1) eo, of T prepare] obtain rep out ev st1 where
    c: "cycle T prepare st env = Inr (Completed rep out, ev, st1)"
    and d: "vipc_dropped_frames rep = - 1"
    and q: "10 \<le> run_count st \<longrightarrow> frame_drop_ratio rep < 0"
    and inv: "stale_single_camera st1" and rc: "run_count st1 = run_count st + 1"
    by blast
  show ?case
  proof (cases "envs = []")
    case True
    with c d q inv show ?thesis by simp
  next
    case False
    from Cons.IH [OF inv _ False] Cons.prems(2) obtain ocs st' rep' out' where
      r: "run T prepare st1 envs = Inr (ocs, st')" "ocs \<noteq> []"
      "last ocs = Completed rep' out'" "vipc_dropped_frames rep' = - 1"
      "10 \<le> run_count st1 + length envs - 1 \<longrightarrow> frame_drop_ratio rep' < 0"
      "stale_single_camera st'"
      by auto
    from r(5) rc have "10 \<le> run_count st + length (env # envs) - 1 \<longrightarrow> frame_drop_ratio rep' < 0"
      by simp
    with c r(1-4,6) show ?thesis by simp
  qed
qed

lemma first_cycle_then_stale:
  assumes sof: "\<not> sof < 25000000"
    and eo: "OUTPUT_SIZE + FEATURE_LEN \<le> length (engine_output env)"
    and fid: "- 200 < fid - 1" "fid - 1 \<le> 0"
  shows "\<exists>out ev st'.
           cycle T prepare
             (init_loop_state False mw (Some (b, fid, sof) # rest) xs :: ('buf, 'img) loop_state) env
             = Inr (Completed \<lparr> vipc_dropped_frames = fid - 1, frames_dropped = 0,
                                frame_drop_ratio = 0, prepare_only = False \<rparr> out, ev, st') \<and>
           stale_single_camera st' \<and> run_count st' = 1 \<and> buf_main st' = Some b \<and>
           live_calib_seen st' = (sm_liveCalibration env \<noteq> None)"
proof -
  let ?st = "init_loop_state False mw (Some (b, fid, sof) # rest) xs :: ('buf, 'img) loop_state"
  from first_cycle_single_camera [OF sof, of fid env T prepare mw b rest xs] eo fid
  obtain out ev st' where
    c: "cycle T prepare ?st env
          = Inr (Completed \<lparr> vipc_dropped_frames = fid - 1, frames_dropped = 0,
                              frame_drop_ratio = 0, prepare_only = False \<rparr> out, ev, st')"
    and k: "vipc_client_main st' = \<lparr> cl_frame_id = fid, cl_timestamp_sof = sof, cl_stream = rest \<rparr>"
      "buf_main st' = Some b"
      "vipc_client_extra st' = \<lparr> cl_frame_id = 0, cl_timestamp_sof = 0, cl_stream = xs \<rparr>"
      "\<not> use_extra_client st'" "array_sizes_ok (model st')"
    by auto
  note f = cycle_Completed_facts [OF c]
  have flt: "frame_dropped_filter st' =
               \<lparr> filt_x = real_of_int (fid - 1) / 200, filt_rc = 10, filt_dt = 1 / 20 \<rparr>"
    using f(2) fid
    by (simp add: init_loop_state_def filter_update_def FirstOrderFilter_def MODEL_FREQ_def
          Let_def min_def)
  have x: "- 1 < real_of_int (fid - 1) / 200" "real_of_int (fid - 1) / 200 \<le> 0"
    using fid by simp_all
  have "stale_single_camera st'"
    unfolding stale_single_camera_def using k sof f(8) flt x by simp
  moreover have "run_count st' = 1" using f(3) by (simp add: init_loop_state_def)
  moreover have "live_calib_seen st' = (sm_liveCalibration env \<noteq> None)"
    using f(9) by (simp add: init_loop_state_def)
  ultimately show ?thesis using c k(2) by blast
qed

section \<open>Two cameras in step\<close>

text \<open>
  With a secondary stream in use, a cycle that finds one new frame on each stream, the
  main one 25 ms or more after the extra frame of the cycle before and the extra one less
  than 25 ms before the main one, receives both and runs to its end.
\<close>
lemma dual_camera_cycle:
  fixes st :: "('buf, 'img) loop_state" and ev1 :: "('buf, 'img) event list"
  assumes "use_extra_client st"
    and "cl_timestamp_sof (vipc_client_main st) < cl_timestamp_sof (vipc_client_extra st) + 25000000"
    and "cl_stream (vipc_client_main st) = Some (b, fid, sof) # rest"
    and "\<not> sof < cl_timestamp_sof (vipc_client_extra st) + 25000000"
    and "cl_stream (vipc_client_extra st) = Some (w, xid, xsof) # xrest"
    and "sof < xsof + 25000000"
    and "array_sizes_ok (model st)"
    and "track_dropped_frames (frame_dropped_filter st) (run_count st) fid
           (last_vipc_frame_id st) = Inr (flt, rc, rep, ev1)"
    and "prepare_only rep \<or> OUTPUT_SIZE + FEATURE_LEN \<le> length (engine_output env)"
  shows "\<exists>out ev st'.
           cycle T prepare st env = Inr (Completed rep out, ev, st') \<and>
           vipc_client_main st' =
             (vipc_client_main st)\<lparr> cl_frame_id := fid, cl_timestamp_sof := sof, cl_stream := rest \<rparr> \<and>
           buf_main st' = Some b \<and>
           vipc_client_extra st' =
             (vipc_client_extra st)\<lparr> cl_frame_id := xid, cl_timestamp_sof := xsof, cl_stream := xrest \<rparr> \<and>
           buf_extra st' = Some w \<and> use_extra_client st' \<and> array_sizes_ok (model st')"
proof -
  let ?cm = "(vipc_client_main st)\<lparr> cl_frame_id := fid, cl_timestamp_sof := sof, cl_stream := rest \<rparr>"
  let ?ce = "(vipc_client_extra st)\<lparr> cl_frame_id := xid, cl_timestamp_sof := xsof, cl_stream := xrest \<rparr>"
  let ?st1 = "st\<lparr> vipc_client_main := ?cm, buf_main := Some b \<rparr>"
  have m: "recv_main_loop (cl_timestamp_sof (vipc_client_extra st)) (vipc_client_main st)
             (buf_main st) = (?cm, Some b)"
    using assms(2,3,4) by (rule recv_main_loop_one)
  have "recv_extra_loop (cl_timestamp_sof (vipc_client_main ?st1)) (vipc_client_extra ?st1)
          = (?ce, Some w)"
    using assms(5,6) by (simp add: recv_extra_loop_caught_up)
  then have x: "sync_extra ?st1 = ([], ?st1\<lparr> vipc_client_extra := ?ce, buf_extra := Some w \<rparr>, True)"
    using assms(1) by (simp add: sync_extra_def)
  from cycle_completes [OF m x assms(7) _ assms(9), of flt rc ev1 T prepare] assms(1,8)
  show ?thesis by simp
qed

lemma in_step_cycle:
  fixes st :: "('buf, 'img) loop_state"
  assumes inv: "in_step_at i st"
    and m: "cl_stream (vipc_client_main st) = Some (b, i + 1, 50000000 * (i + 1)) # rest"
    and x: "cl_stream (vipc_client_extra st) = Some (w, i + 1, 50000000 * (i + 1)) # xrest"
    and eo: "OUTPUT_SIZE + FEATURE_LEN \<le> length (engine_output env)"
  shows "\<exists>rep out ev st'.
           cycle T prepare st env = Inr (Completed rep out, ev, st') \<and>
           vipc_dropped_frames rep = 0 \<and>
           in_step_at (i + 1) st' \<and> run_count st' = run_count st + 1 \<and>
           cl_stream (vipc_client_main st') = rest \<and>
           cl_stream (vipc_client_extra st') = xrest"
proof -
  let ?f = "frame_dropped_filter st"
  let ?rep = "\<lparr> vipc_dropped_frames = 0, frames_dropped = 0,
                 frame_drop_ratio = 0, prepare_only = False \<rparr>"
  from inv have u: "use_extra_client st" and s: "array_sizes_ok (model st)"
    and tm: "cl_timestamp_sof (vipc_client_main st) = 50000000 * i"
    and tx: "cl_timestamp_sof (vipc_client_extra st) = 50000000 * i"
    and l: "last_vipc_frame_id st = i"
    and p: "filt_x ?f = 0" "filt_rc ?f = 10" "filt_dt ?f = 1 / 20"
    by (simp_all add: in_step_at_def)
  have t: "track_dropped_frames ?f (run_count st) (i + 1) (last_vipc_frame_id st)
           = Inr (?f, run_count st + 1, ?rep, ([Filter_update 0] :: ('buf, 'img) event list))"
    unfolding track_dropped_frames_def filter_update_def l p
    by (simp add: Let_def p)
  have a: "cl_timestamp_sof (vipc_client_main st) < cl_timestamp_sof (vipc_client_extra st) + 25000000"
    "\<not> 50000000 * (i + 1) < cl_timestamp_sof (vipc_client_extra st) + 25000000"
    "50000000 * (i + 1) < 50000000 * (i + 1) + (25000000 :: int)"
    unfolding tm tx by simp_all
  have e: "prepare_only ?rep \<or> OUTPUT_SIZE + FEATURE_LEN \<le> length (engine_output env)"
    using eo by simp
  from dual_camera_cycle [OF u a(1) m a(2) x a(3) s t e, of T prepare]
  obtain out ev st' where
    c: "cycle T prepare st env = Inr (Completed ?rep out, ev, st')"
    and k: "vipc_client_main st' =
             (vipc_client_main st)\<lparr> cl_frame_id := i + 1, cl_timestamp_sof := 50000000 * (i + 1),
                cl_stream := rest \<rparr>"
      "vipc_client_extra st' =
             (vipc_client_extra st)\<lparr> cl_frame_id := i + 1, cl_timestamp_sof := 50000000 * (i + 1),
                cl_stream := xrest \<rparr>"
      "use_extra_client st'" "array_sizes_ok (model st')"
    by blast
  note f = cycle_Completed_facts [OF c]
  have flt: "frame_dropped_filter st' = ?f"
    using f(2) by (simp add: filter_update_def Let_def p)
  have "in_step_at (i + 1) st'"
    unfolding in_step_at_def using k f(8) flt p by simp
  moreover have "run_count st' = run_count st + 1" by (rule f(3))
  ultimately show ?thesis using c k
    by (intro exI [of _ ?rep] exI [of _ out] exI [of _ ev] exI [of _ st']) simp
qed

lemma in_step_run:
  fixes st :: "('buf, 'img) loop_state"
  assumes "in_step_at i st"
    and "cl_stream (vipc_client_main st) = frames_from b i (length envs) @ rest"
    and "cl_stream (vipc_client_extra st) = frames_from w i (length envs) @ xrest"
    and "\<forall>env\<in>set envs. OUTPUT_SIZE + FEATURE_LEN \<le> length (engine_output env)"
  shows "\<exists>ocs st'.
           run T prepare st envs = Inr (ocs, st') \<and>
           in_step_at (i + int (length envs)) st' \<and>
           run_count st' = run_count st + length envs \<and>
           cl_stream (vipc_client_main st') = rest \<and>
           cl_stream (vipc_client_extra st') = xrest"
  using assms
proof (induction envs arbitrary: st i)
  case Nil
  then show ?case by simp
next
  case (Cons env envs)
  from Cons.prems(4) have eo: "OUTPUT_SIZE + FEATURE_LEN \<le> length (engine_output env)" by simp
  from Cons.prems(2,3) have
    m: "cl_stream (vipc_client_main st)
          = Some (b, i + 1, 50000000 * (i + 1)) # (frames_from b (i + 1) (length envs) @ rest)"
    and x: "cl_stream (vipc_client_extra st)
          = Some (w, i + 1, 50000000 * (i + 1)) # (frames_from w (i + 1) (length envs) @ xrest)"
    by simp_all
  from in_step_cycle [OF Cons.prems(1) m x eo, of T prepare] obtain rep out ev st1 where
    c: "cycle T prepare st env = Inr (Completed rep out, ev, st1)"
    and inv: "in_step_at (i + 1) st1" and rc: "run_count st1 = run_count st + 1"
    and s: "cl_stream (vipc_client_main st1) = frames_from b (i + 1) (length envs) @ rest"
      "cl_stream (vipc_client_extra st1) = frames_from w (i + 1) (length envs) @ xrest"
    by blast
  from Cons.IH [OF inv s] Cons.prems(4) obtain ocs st' where
    r: "run T prepare st1 envs = Inr (ocs, st')"
      "in_step_at (i + 1 + int (length envs)) st'"
      "run_count st' = run_count st1 + length envs"
      "cl_stream (vipc_client_main st') = rest"
      "cl_stream (vipc_client_extra st') = xrest"
    by auto
  from r(2) have "in_step_at (i + int (length (env # envs))) st'"
    by (simp add: ac_simps)
  with c r rc show ?case by simp
qed

lemma init_in_step:
  "in_step_at 0 (init_loop_state True mw ms xs)"
  by (simp add: in_step_at_def init_loop_state_def init_sizes_ok FirstOrderFilter_def MODEL_FREQ_def)

section \<open>The frame-drop ratio\<close>

text \<open>
  Claim C8, as amended. In every cycle that runs to its end the frame-drop ratio is
  \<open>s / (1 + s)\<close>, where the smoothed value \<open>s\<close> is 0 while \<^verbatim>\<open>run_count\<close> is below 10
  and the filter's value afterwards. When \<open>s\<close> is not negative the divisor is at least 1
  and the ratio lies in \<open>[0, 1)\<close>; and \<open>s\<close> is not negative when the filter's state
  before the cycle and the cycle's dropped-frame count are not negative (for a filter
  with \<open>0 \<le> dt \<le> rc\<close> and \<open>0 < rc\<close>, as the loop's is).
\<close>

theorem frame_drop_ratio_formula:
  assumes c: "cycle T prepare st env = Inr (Completed rep out, ev, st')"
  shows "frames_dropped rep
           = (if run_count st < 10 then 0 else filt_x (frame_dropped_filter st')) \<and>
         1 + frames_dropped rep \<noteq> 0 \<and>
         frame_drop_ratio rep = frames_dropped rep / (1 + frames_dropped rep) \<and>
         (0 \<le> frames_dropped rep \<longrightarrow>
            1 \<le> 1 + frames_dropped rep \<and> 0 \<le> frame_drop_ratio rep \<and> frame_drop_ratio rep < 1) \<and>
         (0 \<le> filt_x (frame_dropped_filter st) \<and> 0 \<le> vipc_dropped_frames rep \<and>
          0 \<le> filt_dt (frame_dropped_filter st) \<and>
          filt_dt (frame_dropped_filter st) \<le> filt_rc (frame_dropped_filter st) \<and>
          0 < filt_rc (frame_dropped_filter st) \<longrightarrow>
            0 \<le> filt_x (frame_dropped_filter st') \<and> 0 \<le> frames_dropped rep)"
proof (intro conjI impI)
  note f = cycle_Completed_facts [OF c]
  show fd: "frames_dropped rep
           = (if run_count st < 10 then 0 else filt_x (frame_dropped_filter st'))" by (rule f(4))
  show "1 + frames_dropped rep \<noteq> 0" by (rule f(5))
  show "frame_drop_ratio rep = frames_dropped rep / (1 + frames_dropped rep)" by (rule f(6))
  {
    assume nn: "0 \<le> frames_dropped rep"
    then show "1 \<le> 1 + frames_dropped rep" by simp
    from nn show "0 \<le> frame_drop_ratio rep" unfolding f(6) by simp
    from nn show "frame_drop_ratio rep < 1" unfolding f(6) by simp
  }
  assume a: "0 \<le> filt_x (frame_dropped_filter st) \<and> 0 \<le> vipc_dropped_frames rep \<and>
          0 \<le> filt_dt (frame_dropped_filter st) \<and>
          filt_dt (frame_dropped_filter st) \<le> filt_rc (frame_dropped_filter st) \<and>
          0 < filt_rc (frame_dropped_filter st)"
  let ?f = "frame_dropped_filter st"
  let ?a = "filt_dt ?f / filt_rc ?f"
  let ?u = "real_of_int (min (vipc_dropped_frames rep) 10)"
  from a have a01: "0 \<le> ?a" "?a \<le> 1" by simp_all
  from a have u: "0 \<le> ?u" by simp
  have "filt_x (frame_dropped_filter st') = filt_x ?f + (?u - filt_x ?f) * ?a"
    unfolding f(2) by (simp add: filter_update_def Let_def)
  also have "\<dots> = (1 - ?a) * filt_x ?f + ?a * ?u" by (simp add: algebra_simps)
  also have "0 \<le> \<dots>" using a01 u a by (intro add_nonneg_nonneg mult_nonneg_nonneg) simp_all
  finally show x': "0 \<le> filt_x (frame_dropped_filter st')" by simp
  then show "0 \<le> frames_dropped rep" unfolding fd by simp
qed

text \<open>
  Two cameras in step for ten cycles, none of which sees a frame dropped: the filter stays
  at 0. Both cameras then drop frames 11 to 13. The eleventh cycle, the first after the
  warm-up, feeds 3 to the filter, whose value becomes \<open>3 / 200\<close>; this is the smoothed
  value, the divisor is \<open>203 / 200\<close> and the ratio \<open>3 / 203\<close>.
\<close>

theorem frame_drop_ratio_formula_witness:
  "\<exists>ocs st rep out ev st'.
     run sample_tables (\<lambda>b t. b)
       (init_loop_state True False
          (frames_from 7 0 10 @ [Some (7::nat, 14, 700000000)])
          (frames_from 8 0 10 @ [Some (8, 14, 700000000)]) :: (nat, nat) loop_state)
       (replicate 10 (sample_env 2)) = Inr (ocs, st) \<and>
     run_count st = 10 \<and>
     cycle sample_tables (\<lambda>b t. b) st (sample_env 2) = Inr (Completed rep out, ev, st') \<and>
     vipc_dropped_frames rep = 3 \<and>
     filt_x (frame_dropped_filter st') = 3 / 200 \<and>
     frames_dropped rep = 3 / 200 \<and>
     1 + frames_dropped rep = 203 / 200 \<and>
     frame_drop_ratio rep = 3 / 203 \<and>
     0 \<le> frame_drop_ratio rep \<and> frame_drop_ratio rep < 1"
proof -
  let ?st0 = "init_loop_state True False
          (frames_from 7 0 10 @ [Some (7::nat, 14, 700000000)])
          (frames_from 8 0 10 @ [Some (8, 14, 700000000)]) :: (nat, nat) loop_state"
  let ?envs = "replicate 10 (sample_env 2)"
  have eo: "OUTPUT_SIZE + FEATURE_LEN \<le> length (engine_output (sample_env 2))"
    by (simp add: sample_env_def MODEL_OUTPUT_SIZE_def OUTPUT_SIZE_def FEATURE_LEN_def)
  have "\<exists>ocs st'.
           run sample_tables (\<lambda>b t. b) ?st0 ?envs = Inr (ocs, st') \<and>
           in_step_at (0 + int (length ?envs)) st' \<and>
           run_count st' = run_count ?st0 + length ?envs \<and>
           cl_stream (vipc_client_main st') = [Some (7, 14, 700000000)] \<and>
           cl_stream (vipc_client_extra st') = [Some (8, 14, 700000000)]"
    using eo by (intro in_step_run init_in_step) (simp_all add: init_loop_state_def)
  then obtain ocs st where
    r: "run sample_tables (\<lambda>b t. b) ?st0 ?envs = Inr (ocs, st)"
    and inv: "in_step_at 10 st" and rc: "run_count st = 10"
    and ms: "cl_stream (vipc_client_main st) = [Some (7, 14, 700000000)]"
    and xs: "cl_stream (vipc_client_extra st) = [Some (8, 14, 700000000)]"
    by (auto simp: init_loop_state_def)
  let ?f = "frame_dropped_filter st"
  let ?rep = "\<lparr> vipc_dropped_frames = 3, frames_dropped = 3 / 200,
                 frame_drop_ratio = 3 / 203, prepare_only = True \<rparr>"
  from inv have u: "use_extra_client st" and s: "array_sizes_ok (model st)"
    and tm: "cl_timestamp_sof (vipc_client_main st) = 500000000"
    and tx: "cl_timestamp_sof (vipc_client_extra st) = 500000000"
    and l: "last_vipc_frame_id st = 10"
    and p: "filt_x ?f = 0" "filt_rc ?f = 10" "filt_dt ?f = 1 / 20"
    by (simp_all add: in_step_at_def)
  have t: "track_dropped_frames ?f (run_count st) 14 (last_vipc_frame_id st)
           = Inr (?f\<lparr> filt_x := 3 / 200 \<rparr>, 11, ?rep,
                  ([Filter_update 3, Log_error ''skipping model eval''] :: (nat, nat) event list))"
    unfolding track_dropped_frames_def filter_update_def l p rc
    by (simp add: Let_def p)
  have a: "cl_timestamp_sof (vipc_client_main st) < cl_timestamp_sof (vipc_client_extra st) + 25000000"
    "\<not> 700000000 < cl_timestamp_sof (vipc_client_extra st) + 25000000"
    "(700000000 :: int) < 700000000 + 25000000"
    unfolding tm tx by simp_all
  have e: "prepare_only ?rep \<or> OUTPUT_SIZE + FEATURE_LEN \<le> length (engine_output (sample_env 2))"
    by simp
  from dual_camera_cycle [OF u a(1) ms a(2) xs a(3) s t e, of sample_tables "\<lambda>b t. b"]
  obtain out ev st' where
    c: "cycle sample_tables (\<lambda>b t. b) st (sample_env 2) = Inr (Completed ?rep out, ev, st')"
    by blast
  have h: "0 \<le> filt_x ?f \<and> 0 \<le> vipc_dropped_frames ?rep \<and> 0 \<le> filt_dt ?f \<and>
           filt_dt ?f \<le> filt_rc ?f \<and> 0 < filt_rc ?f"
    by (simp add: p)
  note w = frame_drop_ratio_formula [OF c]
  from w rc have 1: "frames_dropped ?rep = filt_x (frame_dropped_filter st')" by simp
  from w h have 2: "0 \<le> frames_dropped ?rep" by blast
  from w 2 have 3: "0 \<le> frame_drop_ratio ?rep \<and> frame_drop_ratio ?rep < 1" by blast
  from 1 have 4: "filt_x (frame_dropped_filter st') = 3 / 200" by simp
  show ?thesis
    using r rc c 3 4
    by (intro exI [of _ ocs] exI [of _ st] exI [of _ ?rep] exI [of _ out] exI [of _ ev]
          exI [of _ st']) simp
qed

text \<open>
  The ratio does leave \<open>[0, 1)\<close>. In single-camera mode the extra client is never read, so
  after the first frame the loop of line 161 is not entered again and every later cycle
  runs on the same main frame, with a dropped-frame count of \<open>-1\<close>. The filter's value
  is negative from the second cycle on, and the eleventh cycle, the first after the
  warm-up, reports a negative ratio.
\<close>

theorem frame_drop_ratio_negative:
  "case run sample_tables (\<lambda>b t. b)
          (init_loop_state False True [Some (7::nat, 1, 50000000)] [] :: (nat, nat) loop_state)
          (replicate 11 (sample_env 0)) of
     Inl e \<Rightarrow> False
   | Inr (ocs, st) \<Rightarrow>
       (case last ocs of
          Skipped \<Rightarrow> False
        | Completed rep out \<Rightarrow> vipc_dropped_frames rep = - 1 \<and> frame_drop_ratio rep < 0)"
proof -
  let ?st = "init_loop_state False True [Some (7::nat, 1, 50000000)] [] :: (nat, nat) loop_state"
  have eo: "OUTPUT_SIZE + FEATURE_LEN \<le> length (engine_output (sample_env 0))"
    by (simp add: sample_env_def MODEL_OUTPUT_SIZE_def OUTPUT_SIZE_def FEATURE_LEN_def)
  from first_cycle_then_stale [of 50000000 "sample_env 0" 1 sample_tables "\<lambda>b t. b" True 7 "[]" "[]"] eo
  obtain rep1 out1 ev1 st1 where
    c: "cycle sample_tables (\<lambda>b t. b) ?st (sample_env 0) = Inr (Completed rep1 out1, ev1, st1)"
    and inv: "stale_single_camera st1" and rc: "run_count st1 = 1"
    by auto
  from stale_run [OF inv, of "replicate 10 (sample_env 0)" sample_tables "\<lambda>b t. b"] eo rc
  obtain ocs st' rep out where
    r: "run sample_tables (\<lambda>b t. b) st1 (replicate 10 (sample_env 0)) = Inr (ocs, st')"
      "ocs \<noteq> []" "last ocs = Completed rep out" "vipc_dropped_frames rep = - 1"
      "frame_drop_ratio rep < 0"
    by auto
  have "replicate 11 (sample_env 0) = sample_env 0 # replicate 10 (sample_env 0)"
    by (simp add: eval_nat_numeral)
  with c r have "run sample_tables (\<lambda>b t. b) ?st (replicate 11 (sample_env 0))
                   = Inr (Completed rep1 out1 # ocs, st')" by simp
  with r show ?thesis by simp
qed

section \<open>The dropped-frame count and the warm-up\<close>

lemma cycle_filter_events:
  assumes c: "cycle T prepare st env = Inr (Completed rep out, ev, st')"
  shows "hd ev = Filter_update (real_of_int (min (vipc_dropped_frames rep) 10))"
    and "Filter_update u \<in> set ev \<Longrightarrow> u = real_of_int (min (vipc_dropped_frames rep) 10)"
proof -
  from cycle_Completed_facts(12) [OF c] obtain b r where
    e: "eval prepare (engine_output env) (model st) b (buf_extra st')
              (model_transform_main st') (model_transform_extra st') (loop_inputs env)
              (prepare_only rep) = Inr r"
    and ev: "ev = Filter_update (real_of_int (min (vipc_dropped_frames rep) 10)) #
                  (if vipc_dropped_frames rep > 0 then [Log_error ''skipping model eval''] else []) @
                  er_events r"
    by auto
  show "hd ev = Filter_update (real_of_int (min (vipc_dropped_frames rep) 10))"
    unfolding ev by simp
  show "u = real_of_int (min (vipc_dropped_frames rep) 10)" if "Filter_update u \<in> set ev"
    using that unfolding ev eval_events [OF e] by (auto split: option.splits if_splits)
qed

text \<open>
  Claim C4, as amended. In every cycle that runs to its end the dropped-frame count is the
  main frame id minus the last main frame id minus 1, and the value given to the filter
  is that count bounded above by 10, and by nothing below: it is the first event of the
  cycle and the only filter update in it. When the main frame id has advanced past the
  last one, this is the count clamped to be non-negative and bounded above by 10.
\<close>

theorem dropped_frames_fed_to_filter:
  assumes c: "cycle T prepare st env = Inr (Completed rep out, ev, st')"
  shows "vipc_dropped_frames rep
           = cl_frame_id (vipc_client_main st') - last_vipc_frame_id st - 1 \<and>
         hd ev = Filter_update (real_of_int (min (vipc_dropped_frames rep) 10)) \<and>
         (\<forall>u. Filter_update u \<in> set ev \<longrightarrow> u = real_of_int (min (vipc_dropped_frames rep) 10)) \<and>
         frame_dropped_filter st' =
           fst (filter_update (frame_dropped_filter st)
                  (real_of_int (min (vipc_dropped_frames rep) 10))) \<and>
         (last_vipc_frame_id st < cl_frame_id (vipc_client_main st') \<longrightarrow>
            min (vipc_dropped_frames rep) 10 =
              min (max 0 (cl_frame_id (vipc_client_main st') - last_vipc_frame_id st - 1)) 10)"
  using cycle_Completed_facts(1,2) [OF c] cycle_filter_events [OF c]
  by auto

theorem dropped_frames_fed_to_filter_witness:
  "\<exists>rep out ev st'.
     cycle sample_tables (\<lambda>b t. b)
       (init_loop_state False True [Some (7::nat, 3, 50000000)] [] :: (nat, nat) loop_state)
       (sample_env 1)
       = Inr (Completed rep out, ev, st') \<and>
     cl_frame_id (vipc_client_main st') = 3 \<and>
     vipc_dropped_frames rep = 2 \<and> hd ev = Filter_update 2 \<and>
     frame_dropped_filter st' = \<lparr> filt_x = 1 / 100, filt_rc = 10, filt_dt = 1 / 20 \<rparr>"
proof -
  let ?st = "init_loop_state False True [Some (7::nat, 3, 50000000)] [] :: (nat, nat) loop_state"
  let ?rep = "\<lparr> vipc_dropped_frames = 2, frames_dropped = 0,
                               frame_drop_ratio = 0, prepare_only = True \<rparr>"
  from first_cycle_single_camera [of 50000000 3 "sample_env 1" sample_tables "\<lambda>b t. b" True 7 "[]" "[]"]
  obtain out ev st' where
    c: "cycle sample_tables (\<lambda>b t. b) ?st (sample_env 1) = Inr (Completed ?rep out, ev, st')"
    and k: "vipc_client_main st' = \<lparr> cl_frame_id = 3, cl_timestamp_sof = 50000000, cl_stream = [] \<rparr>"
    by auto
  have h: "last_vipc_frame_id ?st < cl_frame_id (vipc_client_main st')"
    using k by (simp add: init_loop_state_def)
  from dropped_frames_fed_to_filter [OF c] h have
    "hd ev = Filter_update 2"
    "frame_dropped_filter st' = \<lparr> filt_x = 1 / 100, filt_rc = 10, filt_dt = 1 / 20 \<rparr>"
    by (simp_all add: init_loop_state_def filter_update_def FirstOrderFilter_def MODEL_FREQ_def
          Let_def)
  with c k show ?thesis
    by (intro exI [of _ ?rep] exI [of _ out] exI [of _ ev] exI [of _ st']) simp
qed

text \<open>
  When the first frame of the main stream has frame id 0, the first pass through lines 209
  to 216 has a count of \<open>-1\<close> and gives \<open>-1\<close> to the filter, not 0.
\<close>

theorem dropped_frames_not_clamped_below:
  "track_dropped_frames (FirstOrderFilter 0 10 (1 / real MODEL_FREQ)) 0 0 0 =
     Inr (\<lparr> filt_x = - (1 / 200), filt_rc = 10, filt_dt = 1 / 20 \<rparr>, 1,
          \<lparr> vipc_dropped_frames = - 1, frames_dropped = 0, frame_drop_ratio = 0,
            prepare_only = False \<rparr>,
          [Filter_update (- 1) :: (nat, nat) event])"
  by (simp add: track_dropped_frames_def filter_update_def FirstOrderFilter_def MODEL_FREQ_def
        Let_def)

text \<open>
  Claim C3, as amended. In each of the first 10 cycles that run to their end
  (\<^verbatim>\<open>run_count\<close> below 10), the smoothed value the cycle goes on with is forced to 0,
  whatever the dropped-frame count, and so is the frame-drop ratio. The filter itself is
  updated in these cycles as in any other, with the count bounded above by 10, so its
  state after the warm-up depends on the frames dropped during it.
\<close>

theorem warmup_zeroes_reported_value:
  assumes c: "cycle T prepare st env = Inr (Completed rep out, ev, st')"
    and w: "run_count st < 10"
  shows "frames_dropped rep = 0 \<and> frame_drop_ratio rep = 0 \<and>
         run_count st' = run_count st + 1 \<and>
         hd ev = Filter_update (real_of_int (min (vipc_dropped_frames rep) 10)) \<and>
         frame_dropped_filter st' =
           fst (filter_update (frame_dropped_filter st)
                  (real_of_int (min (vipc_dropped_frames rep) 10)))"
  using cycle_Completed_facts(2,3,4,6) [OF c] cycle_filter_events(1) [OF c] w
  by simp

theorem warmup_zeroes_reported_value_witness:
  "\<exists>rep out ev st'.
     cycle sample_tables (\<lambda>b t. b)
       (init_loop_state False True [Some (7::nat, 21, 50000000)] [] :: (nat, nat) loop_state)
       (sample_env 1)
       = Inr (Completed rep out, ev, st') \<and>
     vipc_dropped_frames rep = 20 \<and> frames_dropped rep = 0 \<and> frame_drop_ratio rep = 0 \<and>
     run_count st' = 1 \<and> hd ev = Filter_update 10 \<and>
     frame_dropped_filter st' = \<lparr> filt_x = 1 / 20, filt_rc = 10, filt_dt = 1 / 20 \<rparr>"
proof -
  let ?st = "init_loop_state False True [Some (7::nat, 21, 50000000)] [] :: (nat, nat) loop_state"
  let ?rep = "\<lparr> vipc_dropped_frames = 20, frames_dropped = 0,
                               frame_drop_ratio = 0, prepare_only = True \<rparr>"
  from first_cycle_single_camera [of 50000000 21 "sample_env 1" sample_tables "\<lambda>b t. b" True 7 "[]" "[]"]
  obtain out ev st' where
    c: "cycle sample_tables (\<lambda>b t. b) ?st (sample_env 1) = Inr (Completed ?rep out, ev, st')"
    by auto
  have w: "run_count ?st < 10" by (simp add: init_loop_state_def)
  from warmup_zeroes_reported_value [OF c w] have
    "run_count st' = 1" "hd ev = Filter_update 10"
    "frame_dropped_filter st' = \<lparr> filt_x = 1 / 20, filt_rc = 10, filt_dt = 1 / 20 \<rparr>"
    by (simp_all add: init_loop_state_def filter_update_def FirstOrderFilter_def MODEL_FREQ_def
          Let_def)
  with c show ?thesis
    by (intro exI [of _ ?rep] exI [of _ out] exI [of _ ev] exI [of _ st']) simp
qed

text \<open>
  When the first frame of the main stream has frame id 5, the first pass through lines 209
  to 216 gives 4 to the filter, not 0, and leaves the filter's state at \<open>1/50\<close>, not 0.
\<close>

theorem warmup_filter_fed_actual_drops:
  "track_dropped_frames (FirstOrderFilter 0 10 (1 / real MODEL_FREQ)) 0 5 0 =
     Inr (\<lparr> filt_x = 1 / 50, filt_rc = 10, filt_dt = 1 / 20 \<rparr>, 1,
          \<lparr> vipc_dropped_frames = 4, frames_dropped = 0, frame_drop_ratio = 0,
            prepare_only = True \<rparr>,
          [Filter_update 4, Log_error ''skipping model eval'' :: (nat, nat) event])"
  by (simp add: track_dropped_frames_def filter_update_def FirstOrderFilter_def MODEL_FREQ_def
        Let_def)

section \<open>The calibration-seen flag\<close>

lemma cycle_calibration:
  assumes "cycle T prepare st env = Inr (oc, ev, st')"
  shows "live_calib_seen st' = (live_calib_seen st \<or> (oc \<noteq> Skipped \<and> sm_liveCalibration env \<noteq> None))"
    and "sm_liveCalibration env = None \<Longrightarrow>
           model_transform_main st' = model_transform_main st \<and>
           model_transform_extra st' = model_transform_extra st"
proof -
  show "live_calib_seen st' = (live_calib_seen st \<or> (oc \<noteq> Skipped \<and> sm_liveCalibration env \<noteq> None))"
  proof (cases oc)
    case Skipped
    with assms cycle_Skipped(6) [of T prepare st env ev st'] show ?thesis by simp
  next
    case (Completed rep out)
    with assms cycle_Completed_facts(9) [of T prepare st env rep out ev st'] show ?thesis by simp
  qed
  show "model_transform_main st' = model_transform_main st \<and>
        model_transform_extra st' = model_transform_extra st" if "sm_liveCalibration env = None"
  proof (cases oc)
    case Skipped
    with assms cycle_Skipped(4,5) [of T prepare st env ev st'] show ?thesis by simp
  next
    case (Completed rep out)
    with assms that cycle_Completed_facts(10,11) [of T prepare st env rep out ev st']
    show ?thesis by simp
  qed
qed

lemma run_calibration_latches:
  "run T prepare st envs = Inr (ocs, st') \<Longrightarrow> live_calib_seen st \<Longrightarrow> live_calib_seen st'"
proof (induction envs arbitrary: st ocs)
  case Nil
  then show ?case by simp
next
  case (Cons env envs)
  from Cons.prems(1) obtain oc ev st1 ocs' where
    c: "cycle T prepare st env = Inr (oc, ev, st1)"
    and r: "run T prepare st1 envs = Inr (ocs', st')"
    by (auto split: sum.splits prod.splits)
  from cycle_calibration(1) [OF c] Cons.prems(2) have "live_calib_seen st1" by simp
  with Cons.IH [OF r] show ?case .
qed

lemma run_without_calibration:
  "run T prepare st envs = Inr (ocs, st') \<Longrightarrow> \<forall>env\<in>set envs. sm_liveCalibration env = None \<Longrightarrow>
   live_calib_seen st' = live_calib_seen st \<and>
   model_transform_main st' = model_transform_main st \<and>
   model_transform_extra st' = model_transform_extra st"
proof (induction envs arbitrary: st ocs)
  case Nil
  then show ?case by simp
next
  case (Cons env envs)
  from Cons.prems(1) obtain oc ev st1 ocs' where
    c: "cycle T prepare st env = Inr (oc, ev, st1)"
    and r: "run T prepare st1 envs = Inr (ocs', st')"
    by (auto split: sum.splits prod.splits)
  from Cons.prems(2) have n: "sm_liveCalibration env = None" by simp
  from cycle_calibration [OF c] n have
    "live_calib_seen st1 = live_calib_seen st \<and>
     model_transform_main st1 = model_transform_main st \<and>
     model_transform_extra st1 = model_transform_extra st" by simp
  with Cons.IH [OF r] Cons.prems(2) show ?case by simp
qed

lemma concat_zero_matrix: "concat (replicate 3 (replicate 3 (0::real))) = replicate 9 0"
  by (simp add: eval_nat_numeral)

lemma cycle_inference:
  assumes c: "cycle T prepare st env = Inr (Completed rep out, ev, st')"
  shows "(Model_execute \<in> set ev) = (vipc_dropped_frames rep \<le> 0)"
    and "vipc_dropped_frames rep \<le> 0 \<Longrightarrow> out \<noteq> None"
    and "\<exists>b. buf_main st' = Some b \<and> Frame_prepare b (concat (model_transform_main st')) \<in> set ev"
proof -
  from cycle_Completed_facts(12) [OF c] obtain b r where
    b: "buf_main st' = Some b"
    and e: "eval prepare (engine_output env) (model st) b (buf_extra st')
              (model_transform_main st') (model_transform_extra st') (loop_inputs env)
              (prepare_only rep) = Inr r"
    and o: "out = er_return r"
    and ev: "ev = Filter_update (real_of_int (min (vipc_dropped_frames rep) 10)) #
                  (if vipc_dropped_frames rep > 0 then [Log_error ''skipping model eval''] else []) @
                  er_events r"
    by auto
  note po = cycle_Completed_facts(7) [OF c]
  show "(Model_execute \<in> set ev) = (vipc_dropped_frames rep \<le> 0)"
    unfolding ev eval_events [OF e] po by (auto split: option.splits)
  show "out \<noteq> None" if "vipc_dropped_frames rep \<le> 0"
    using e that po unfolding o by (elim eval_InrE) simp
  show "\<exists>b. buf_main st' = Some b \<and> Frame_prepare b (concat (model_transform_main st')) \<in> set ev"
    unfolding ev eval_events [OF e] using b by simp
qed

text \<open>
  Claim C10. When the loop is entered the calibration-seen flag is false and both warp
  matrices are the 3 by 3 zero matrix, and they stay so through any cycles in which no
  \<^verbatim>\<open>liveCalibration\<close> update arrives; a flag that is true stays true. A cycle before any
  update that has no dropped frames still prepares the main image, with the zero matrix
  as its transform, and runs the engine.
\<close>

theorem calibration_seen_latches:
  fixes st :: "('buf, 'img) loop_state"
  shows "\<not> live_calib_seen (init_loop_state use_extra main_wide main_stream extra_stream
                             :: ('buf, 'img) loop_state) \<and>
         model_transform_main (init_loop_state use_extra main_wide main_stream extra_stream
                                 :: ('buf, 'img) loop_state) = replicate 3 (replicate 3 0) \<and>
         model_transform_extra (init_loop_state use_extra main_wide main_stream extra_stream
                                  :: ('buf, 'img) loop_state) = replicate 3 (replicate 3 0) \<and>
         (run T prepare (init_loop_state use_extra main_wide main_stream extra_stream) envs
            = Inr (ocs, st) \<and>
          (\<forall>e\<in>set envs. sm_liveCalibration e = None) \<longrightarrow>
            \<not> live_calib_seen st \<and>
            model_transform_main st = replicate 3 (replicate 3 0) \<and>
            model_transform_extra st = replicate 3 (replicate 3 0) \<and>
            (sm_liveCalibration env = None \<and>
             cycle T prepare st env = Inr (Completed rep out, ev, st') \<and>
             vipc_dropped_frames rep \<le> 0 \<longrightarrow>
               \<not> live_calib_seen st' \<and> Model_execute \<in> set ev \<and> out \<noteq> None \<and>
               (\<exists>b. buf_main st' = Some b \<and> Frame_prepare b (replicate 9 0) \<in> set ev))) \<and>
         (run T prepare s envs' = Inr (ocs', s') \<and> live_calib_seen s \<longrightarrow> live_calib_seen s')"
proof (intro conjI impI)
  let ?st0 = "init_loop_state use_extra main_wide main_stream extra_stream :: ('buf, 'img) loop_state"
  show i: "\<not> live_calib_seen ?st0" "model_transform_main ?st0 = replicate 3 (replicate 3 0)"
    "model_transform_extra ?st0 = replicate 3 (replicate 3 0)"
    by (simp_all add: init_loop_state_def)
  show "live_calib_seen s'" if "run T prepare s envs' = Inr (ocs', s') \<and> live_calib_seen s"
    using that run_calibration_latches by blast
  assume r: "run T prepare ?st0 envs = Inr (ocs, st) \<and> (\<forall>e\<in>set envs. sm_liveCalibration e = None)"
  from run_without_calibration [of T prepare ?st0 envs ocs st] r i
  show u: "\<not> live_calib_seen st" "model_transform_main st = replicate 3 (replicate 3 0)"
    "model_transform_extra st = replicate 3 (replicate 3 0)"
    by simp_all
  assume c: "sm_liveCalibration env = None \<and>
             cycle T prepare st env = Inr (Completed rep out, ev, st') \<and>
             vipc_dropped_frames rep \<le> 0"
  then have c': "cycle T prepare st env = Inr (Completed rep out, ev, st')" by simp
  from cycle_calibration [OF c'] c u have
    v: "\<not> live_calib_seen st'" "model_transform_main st' = replicate 3 (replicate 3 0)"
    by simp_all
  from v show "\<not> live_calib_seen st'" by simp
  from cycle_inference(1) [OF c'] c show "Model_execute \<in> set ev" by simp
  from cycle_inference(2) [OF c'] c show "out \<noteq> None" by simp
  from cycle_inference(3) [OF c'] v(2)
  show "\<exists>b. buf_main st' = Some b \<and> Frame_prepare b (replicate 9 0) \<in> set ev"
    by (simp add: concat_zero_matrix)
qed

theorem calibration_seen_latches_witness:
  "\<exists>ocs st rep out ev st' rep1 out1 ev1 s ocs' s'.
     run sample_tables (\<lambda>b t. b)
       (init_loop_state False True [Some (7::nat, 1, 50000000)] [] :: (nat, nat) loop_state)
       [sample_env 0] = Inr (ocs, st) \<and>
     cycle sample_tables (\<lambda>b t. b) st (sample_env 0) = Inr (Completed rep out, ev, st') \<and>
     vipc_dropped_frames rep = - 1 \<and> \<not> live_calib_seen st' \<and> Model_execute \<in> set ev \<and>
     out \<noteq> None \<and> Frame_prepare 7 (replicate 9 0) \<in> set ev \<and>
     cycle sample_tables (\<lambda>b t. b)
       (init_loop_state False True [Some (7::nat, 1, 50000000)] [] :: (nat, nat) loop_state)
       ((sample_env 0)\<lparr> sm_liveCalibration := Some [0, 0, 0] \<rparr>)
       = Inr (Completed rep1 out1, ev1, s) \<and>
     live_calib_seen s \<and>
     run sample_tables (\<lambda>b t. b) s [sample_env 0] = Inr (ocs', s') \<and> live_calib_seen s'"
proof -
  let ?p = "\<lambda>(b::nat) (t::ndarray). b"
  let ?st0 = "init_loop_state False True [Some (7::nat, 1, 50000000)] [] :: (nat, nat) loop_state"
  let ?cal = "(sample_env 0)\<lparr> sm_liveCalibration := Some [0, 0, 0] \<rparr>"
  have eo: "OUTPUT_SIZE + FEATURE_LEN \<le> length (engine_output (sample_env 0))"
    "OUTPUT_SIZE + FEATURE_LEN \<le> length (engine_output ?cal)"
    by (simp_all add: sample_env_def MODEL_OUTPUT_SIZE_def OUTPUT_SIZE_def FEATURE_LEN_def)
  have none: "sm_liveCalibration (sample_env 0) = None" by (simp add: sample_env_def)
  from first_cycle_then_stale [of 50000000 "sample_env 0" 1 sample_tables ?p True 7 "[]" "[]"] eo
  obtain rep0 out0 ev0 st where
    c0: "cycle sample_tables ?p ?st0 (sample_env 0) = Inr (Completed rep0 out0, ev0, st)"
    and inv: "stale_single_camera st" and b: "buf_main st = Some 7"
    by auto
  from c0 have r0: "run sample_tables ?p ?st0 [sample_env 0] = Inr ([Completed rep0 out0], st)"
    by simp
  from stale_step [OF inv eo(1), of sample_tables ?p] b obtain rep out ev st' where
    c: "cycle sample_tables ?p st (sample_env 0) = Inr (Completed rep out, ev, st')"
    and d: "vipc_dropped_frames rep = - 1" and b': "buf_main st' = Some 7"
    by auto
  from first_cycle_then_stale [of 50000000 ?cal 1 sample_tables ?p True 7 "[]" "[]"] eo
  obtain rep1 out1 ev1 s where
    c1: "cycle sample_tables ?p ?st0 ?cal = Inr (Completed rep1 out1, ev1, s)"
    and inv1: "stale_single_camera s" and seen: "live_calib_seen s"
    by auto
  from stale_run [OF inv1, of "[sample_env 0]" sample_tables ?p] eo obtain ocs' s' where
    r1: "run sample_tables ?p s [sample_env 0] = Inr (ocs', s')"
    by auto
  note latch = calibration_seen_latches [where use_extra = False and main_wide = True
      and main_stream = "[Some (7::nat, 1, 50000000)]" and extra_stream = "[]"
      and T = sample_tables and prepare = ?p and envs = "[sample_env 0]"
      and ocs = "[Completed rep0 out0]" and st = st and env = "sample_env 0"
      and rep = rep and out = out and ev = ev and st' = st'
      and s = s and envs' = "[sample_env 0]" and ocs' = ocs' and s' = s']
  from latch r0 none c d have
    "\<not> live_calib_seen st'" "Model_execute \<in> set ev" "out \<noteq> None"
    "\<exists>b. buf_main st' = Some b \<and> Frame_prepare b (replicate 9 0) \<in> set ev"
    by simp_all
  moreover from latch r1 seen have "live_calib_seen s'" by simp
  ultimately show ?thesis
    using r0 c d c1 seen r1 b' by (intro exI conjI) auto
qed

end
